theory Spec2Isabelle
  imports Complex_Main
begin

section \<open>Gaze analysis: data model\<close>

text \<open>
  The module under verification is \<^verbatim>\<open>gazeAnalysis.ts\<close>. A TypeScript \<^verbatim>\<open>number\<close> is
  modelled as a \<^typ>\<open>real\<close>: arithmetic is exact and no value is NaN or infinite. Where a
  statement depends on the rounding of binary64 arithmetic (the sum of the dwell-time
  percentages), the function is given a second time with the rounding of every operation
  written out.
  Counters that the code only ever uses as array indices, lengths or sequence numbers
  (\<^verbatim>\<open>id\<close>, \<^verbatim>\<open>pointCount\<close>, \<^verbatim>\<open>fixationCount\<close>, \<^verbatim>\<open>entryCount\<close>, the window indices) are
  \<^typ>\<open>nat\<close>. A nullable field is an \<^typ>\<open>'a option\<close>.

  Record fields are global constants in HOL, so the fields \<^verbatim>\<open>x\<close>, \<^verbatim>\<open>y\<close>, \<^verbatim>\<open>id\<close> and
  \<^verbatim>\<open>name\<close> that several interfaces share carry the interface as a prefix:
  \<^verbatim>\<open>GazePoint.x\<close> is \<open>gp_x\<close>, \<^verbatim>\<open>Fixation.x\<close> is \<open>fix_x\<close>, \<^verbatim>\<open>AOI.bounds.x\<close> is \<open>b_x\<close>,
  and so on.
\<close>

record GazePoint =
  timestamp :: real
  frameNumber :: real
  gp_x :: real
  gp_y :: real
  screenX :: real
  screenY :: real

record Fixation =
  fix_id :: nat
  startTime :: real
  endTime :: real
  duration :: real
  fix_x :: real
  fix_y :: real
  pointCount :: nat
  points :: "GazePoint list"

record Bounds =
  b_x :: real
  b_y :: real
  width :: real
  height :: real

record AOI =
  aoi_id :: string
  aoi_name :: string
  color :: string
  bounds :: Bounds

record DwellTimeStats =
  aoiId :: string
  aoiName :: string
  totalDwellTime :: real
  fixationCount :: nat
  meanFixationDuration :: real
  percentOfTotal :: real

definition DEFAULT_DISPERSION_THRESHOLD :: real where
  "DEFAULT_DISPERSION_THRESHOLD = 3 / 100"

definition DEFAULT_MIN_FIXATION_DURATION :: real where
  "DEFAULT_MIN_FIXATION_DURATION = 100"

section \<open>Fixation detection (I-DT)\<close>

text \<open>
  \<^verbatim>\<open>Array.prototype.slice(a, b)\<close> for indices \<open>0 \<le> a\<close>, \<open>0 \<le> b\<close>: the elements at
  positions \<open>a, ..., b - 1\<close> that exist (the end is clipped to the length, and the result is
  empty when \<open>b \<le> a\<close>).
\<close>

definition slice :: "'a list \<Rightarrow> nat \<Rightarrow> nat \<Rightarrow> 'a list" where
  "slice xs a b = take (b - a) (drop a xs)"

text \<open>The distance computed in the body of the inner loop of \<^verbatim>\<open>calculateDispersion\<close>.\<close>

definition pointDist :: "GazePoint \<Rightarrow> GazePoint \<Rightarrow> real" where
  "pointDist p q =
     (let dx = gp_x p - gp_x q; dy = gp_y p - gp_y q in sqrt (dx * dx + dy * dy))"

text \<open>
  The inner loop of \<^verbatim>\<open>calculateDispersion\<close> (\<open>j\<close> from \<open>i + 1\<close> to the end): the first
  argument is \<^verbatim>\<open>points[i]\<close>, the second the points after it, the third \<^verbatim>\<open>maxDist\<close>.
\<close>

fun dispersionInner :: "GazePoint \<Rightarrow> GazePoint list \<Rightarrow> real \<Rightarrow> real" where
  "dispersionInner p [] maxDist = maxDist"
| "dispersionInner p (q # qs) maxDist =
     (let dist = pointDist p q
      in dispersionInner p qs (if dist > maxDist then dist else maxDist))"

text \<open>The outer loop (\<open>i\<close> from 0 to the end).\<close>

fun dispersionOuter :: "GazePoint list \<Rightarrow> real \<Rightarrow> real" where
  "dispersionOuter [] maxDist = maxDist"
| "dispersionOuter (p # ps) maxDist = dispersionOuter ps (dispersionInner p ps maxDist)"

definition calculateDispersion :: "GazePoint list \<Rightarrow> real" where
  "calculateDispersion pts = (if length pts < 2 then 0 else dispersionOuter pts 0)"

definition calculateCentroid :: "GazePoint list \<Rightarrow> real \<times> real" where
  "calculateCentroid pts =
     (if length pts = 0 then (0, 0)
      else
        (let sumX = foldl (\<lambda>sum p. sum + gp_x p) 0 pts;
             sumY = foldl (\<lambda>sum p. sum + gp_y p) 0 pts
         in (sumX / real (length pts), sumY / real (length pts))))"

text \<open>
  The first inner loop of \<^verbatim>\<open>detectFixationsIDT\<close>: advance \<^verbatim>\<open>windowEnd\<close> while it is in
  range and the time span from \<^verbatim>\<open>windowStart\<close> is below the minimum duration.
\<close>

function findWindowEnd :: "GazePoint list \<Rightarrow> nat \<Rightarrow> nat \<Rightarrow> real \<Rightarrow> nat" where
  "findWindowEnd sortedPoints windowStart windowEnd minDuration =
     (if windowEnd < length sortedPoints \<and>
         (timestamp (sortedPoints ! windowEnd) - timestamp (sortedPoints ! windowStart)) * 1000
            < minDuration
      then findWindowEnd sortedPoints windowStart (windowEnd + 1) minDuration
      else windowEnd)"
  by pat_completeness auto
termination
  by (relation "measure (\<lambda>(sortedPoints, windowStart, windowEnd, minDuration).
        length sortedPoints - windowEnd)") auto

declare findWindowEnd.simps [simp del]

text \<open>
  The second inner loop: extend the window by one point at a time while the dispersion of
  the extended window stays within the threshold. The state is \<^verbatim>\<open>windowEnd\<close> and
  \<^verbatim>\<open>windowPoints\<close> (the variable \<^verbatim>\<open>dispersion\<close> is written but not read afterwards).
\<close>

function expandWindow ::
  "GazePoint list \<Rightarrow> real \<Rightarrow> nat \<Rightarrow> nat \<Rightarrow> GazePoint list \<Rightarrow> nat \<times> GazePoint list" where
  "expandWindow sortedPoints dispersionThreshold windowStart windowEnd windowPoints =
     (if windowEnd + 1 < length sortedPoints
      then
        (let testPoints = slice sortedPoints windowStart (windowEnd + 2);
             testDispersion = calculateDispersion testPoints
         in if testDispersion \<le> dispersionThreshold
            then expandWindow sortedPoints dispersionThreshold windowStart (windowEnd + 1)
                   testPoints
            else (windowEnd, windowPoints))
      else (windowEnd, windowPoints))"
  by pat_completeness auto
termination
  by (relation "measure (\<lambda>(sortedPoints, dispersionThreshold, windowStart, windowEnd,
        windowPoints). length sortedPoints - windowEnd)") auto

declare expandWindow.simps [simp del]

lemma findWindowEnd_ge: "windowEnd \<le> findWindowEnd sortedPoints windowStart windowEnd minDuration"
proof (induction sortedPoints windowStart windowEnd minDuration rule: findWindowEnd.induct)
  case (1 sortedPoints windowStart windowEnd minDuration)
  show ?case
  proof (cases "windowEnd < length sortedPoints \<and>
      (timestamp (sortedPoints ! windowEnd) - timestamp (sortedPoints ! windowStart)) * 1000
        < minDuration")
    case True
    with "1.IH" have "windowEnd + 1
        \<le> findWindowEnd sortedPoints windowStart (windowEnd + 1) minDuration"
      by simp
    with True show ?thesis
      by (subst findWindowEnd.simps) simp
  next
    case False
    then show ?thesis
      by (subst findWindowEnd.simps) auto
  qed
qed

lemma expandWindow_ge:
  "windowEnd \<le> fst (expandWindow sortedPoints thr windowStart windowEnd windowPoints)"
proof (induction sortedPoints thr windowStart windowEnd windowPoints
    rule: expandWindow.induct)
  case (1 sortedPoints thr windowStart windowEnd windowPoints)
  show ?case
  proof (cases "windowEnd + 1 < length sortedPoints \<and>
      calculateDispersion (slice sortedPoints windowStart (windowEnd + 2)) \<le> thr")
    case True
    with "1.IH" have "windowEnd + 1 \<le> fst (expandWindow sortedPoints thr windowStart
        (windowEnd + 1) (slice sortedPoints windowStart (windowEnd + 2)))"
      by simp
    with True show ?thesis
      by (subst expandWindow.simps) simp
  next
    case False
    then show ?thesis
      by (subst expandWindow.simps) (auto simp: Let_def)
  qed
qed

text \<open>
  The main loop of \<^verbatim>\<open>detectFixationsIDT\<close>. The state is \<^verbatim>\<open>windowStart\<close>,
  \<^verbatim>\<open>fixationId\<close> and the array \<^verbatim>\<open>fixations\<close>, to which \<^verbatim>\<open>push\<close> appends.
\<close>

function idtLoop ::
  "GazePoint list \<Rightarrow> real \<Rightarrow> real \<Rightarrow> nat \<Rightarrow> nat \<Rightarrow> Fixation list \<Rightarrow> Fixation list" where
  "idtLoop sortedPoints dispersionThreshold minDuration windowStart fixationId fixations =
     (if windowStart < length sortedPoints
      then
        (let windowEnd = findWindowEnd sortedPoints windowStart windowStart minDuration
         in if windowEnd \<ge> length sortedPoints
            then fixations
            else
              (let windowPoints = slice sortedPoints windowStart (windowEnd + 1);
                   dispersion = calculateDispersion windowPoints
               in if dispersion \<le> dispersionThreshold
                  then
                    (let expanded = expandWindow sortedPoints dispersionThreshold windowStart
                                      windowEnd windowPoints;
                         windowEnd' = fst expanded;
                         windowPoints' = snd expanded;
                         centroid = calculateCentroid windowPoints';
                         startTime' = timestamp (windowPoints' ! 0);
                         endTime' = timestamp (windowPoints' ! (length windowPoints' - 1));
                         duration' = (endTime' - startTime') * 1000
                     in if duration' \<ge> minDuration
                        then idtLoop sortedPoints dispersionThreshold minDuration
                               (windowEnd' + 1) (fixationId + 1)
                               (fixations @
                                 [\<lparr>fix_id = fixationId, startTime = startTime',
                                   endTime = endTime', duration = duration',
                                   fix_x = fst centroid, fix_y = snd centroid,
                                   pointCount = length windowPoints',
                                   points = windowPoints'\<rparr>])
                        else idtLoop sortedPoints dispersionThreshold minDuration
                               (windowEnd' + 1) fixationId fixations)
                  else idtLoop sortedPoints dispersionThreshold minDuration
                         (windowStart + 1) fixationId fixations))
      else fixations)"
  by pat_completeness auto
termination
  apply (relation "measure (\<lambda>(sortedPoints, dispersionThreshold, minDuration, windowStart,
        fixationId, fixations). length sortedPoints - windowStart)")
  apply simp
  subgoal for sortedPoints thr minDuration windowStart fixationId fixations windowEnd
      windowPoints dispersion expanded windowEnd'
    using findWindowEnd_ge [of windowStart sortedPoints windowStart minDuration]
      expandWindow_ge [of windowEnd sortedPoints thr windowStart windowPoints]
    by simp
  subgoal for sortedPoints thr minDuration windowStart fixationId fixations windowEnd
      windowPoints dispersion expanded windowEnd'
    using findWindowEnd_ge [of windowStart sortedPoints windowStart minDuration]
      expandWindow_ge [of windowEnd sortedPoints thr windowStart windowPoints]
    by simp
  subgoal by simp
  done

declare idtLoop.simps [simp del]

text \<open>
  \<^verbatim>\<open>[...gazePoints].sort((a, b) => a.timestamp - b.timestamp)\<close>: the sort of the
  ECMAScript standard is stable, and so is \<^const>\<open>sort_key\<close>.
\<close>

definition detectFixationsIDT :: "GazePoint list \<Rightarrow> real \<Rightarrow> real \<Rightarrow> Fixation list" where
  "detectFixationsIDT gazePoints dispersionThreshold minDuration =
     (if length gazePoints < 2 then []
      else idtLoop (sort_key timestamp gazePoints) dispersionThreshold minDuration 0 1 [])"

text \<open>
  One iteration of the main loop, named: the window found by the first inner loop, the
  result of the expansion, and the fixation record built from it.
\<close>

definition initialEnd :: "GazePoint list \<Rightarrow> real \<Rightarrow> nat \<Rightarrow> nat" where
  "initialEnd sp md ws = findWindowEnd sp ws ws md"

definition expanded :: "GazePoint list \<Rightarrow> real \<Rightarrow> real \<Rightarrow> nat \<Rightarrow> nat \<times> GazePoint list" where
  "expanded sp thr md ws =
     expandWindow sp thr ws (initialEnd sp md ws) (slice sp ws (initialEnd sp md ws + 1))"

definition fixationAt :: "GazePoint list \<Rightarrow> real \<Rightarrow> real \<Rightarrow> nat \<Rightarrow> nat \<Rightarrow> Fixation" where
  "fixationAt sp thr md ws fid =
     (let wp = snd (expanded sp thr md ws)
      in \<lparr>fix_id = fid, startTime = timestamp (wp ! 0),
          endTime = timestamp (wp ! (length wp - 1)),
          duration = (timestamp (wp ! (length wp - 1)) - timestamp (wp ! 0)) * 1000,
          fix_x = fst (calculateCentroid wp), fix_y = snd (calculateCentroid wp),
          pointCount = length wp, points = wp\<rparr>)"


text \<open>
  The dispersion as the specification words it: the maximum Euclidean distance over all pairs
  of points, and 0 for fewer than two points.
\<close>

definition maxPairwiseDistance :: "GazePoint list \<Rightarrow> real" where
  "maxPairwiseDistance pts =
     (if length pts < 2 then 0
      else Max ((\<lambda>(p, q). pointDist p q) ` (set pts \<times> set pts)))"


section \<open>AOI analysis\<close>

definition isPointInAOI :: "real \<Rightarrow> real \<Rightarrow> AOI \<Rightarrow> bool" where
  "isPointInAOI px py aoi \<longleftrightarrow>
     px \<ge> b_x (bounds aoi) \<and>
     px \<le> b_x (bounds aoi) + width (bounds aoi) \<and>
     py \<ge> b_y (bounds aoi) \<and>
     py \<le> b_y (bounds aoi) + height (bounds aoi)"

text \<open>The \<^verbatim>\<open>for ... of\<close> loop with its early return; \<^verbatim>\<open>null\<close> is \<^const>\<open>None\<close>.\<close>

fun findAOIForFixation :: "Fixation \<Rightarrow> AOI list \<Rightarrow> AOI option" where
  "findAOIForFixation fixation [] = None"
| "findAOIForFixation fixation (aoi # aois) =
     (if isPointInAOI (fix_x fixation) (fix_y fixation) aoi then Some aoi
      else findAOIForFixation fixation aois)"

subsection \<open>Dwell time\<close>

text \<open>\<^verbatim>\<open>fs.reduce((sum, f) => sum + f.duration, 0)\<close>, which the module uses four times.\<close>

definition sumDurations :: "Fixation list \<Rightarrow> real" where
  "sumDurations fs = foldl (\<lambda>sum f. sum + duration f) 0 fs"

definition calculateDwellTime :: "Fixation list \<Rightarrow> AOI list \<Rightarrow> DwellTimeStats list" where
  "calculateDwellTime fixations aois =
     (let totalViewingTime = sumDurations fixations;
          stats = map (\<lambda>aoi.
            (let aoiFixations = filter (\<lambda>f. isPointInAOI (fix_x f) (fix_y f) aoi) fixations;
                 totalDwellTime' = sumDurations aoiFixations;
                 fixationCount' = length aoiFixations
             in \<lparr>aoiId = aoi_id aoi,
                 aoiName = aoi_name aoi,
                 totalDwellTime = totalDwellTime',
                 fixationCount = fixationCount',
                 meanFixationDuration =
                   (if fixationCount' > 0 then totalDwellTime' / real fixationCount' else 0),
                 percentOfTotal =
                   (if totalViewingTime > 0 then (totalDwellTime' / totalViewingTime) * 100
                    else 0)\<rparr>)) aois;
          outsideFixations =
            filter (\<lambda>f. \<not> list_ex (\<lambda>aoi. isPointInAOI (fix_x f) (fix_y f) aoi) aois) fixations;
          outsideDwellTime = sumDurations outsideFixations
      in stats @
         [\<lparr>aoiId = ''__outside__'',
           aoiName = ''Outside AOIs'',
           totalDwellTime = outsideDwellTime,
           fixationCount = length outsideFixations,
           meanFixationDuration =
             (if length outsideFixations > 0
              then outsideDwellTime / real (length outsideFixations) else 0),
           percentOfTotal =
             (if totalViewingTime > 0 then (outsideDwellTime / totalViewingTime) * 100
              else 0)\<rparr>])"

subsection \<open>Scanpath\<close>

text \<open>
  A JavaScript \<^verbatim>\<open>Map\<close> with string keys, as an association list in insertion order:
  \<^verbatim>\<open>set\<close> on a key that is present replaces its value in place, \<^verbatim>\<open>set\<close> on a new key appends.
\<close>

type_synonym 'v jsMap = "(string \<times> 'v) list"

fun mapGet :: "'v jsMap \<Rightarrow> string \<Rightarrow> 'v option" where
  "mapGet [] k = None"
| "mapGet ((k', v) # m) k = (if k' = k then Some v else mapGet m k)"

definition mapHas :: "'v jsMap \<Rightarrow> string \<Rightarrow> bool" where
  "mapHas m k \<longleftrightarrow> mapGet m k \<noteq> None"

fun mapSet :: "'v jsMap \<Rightarrow> string \<Rightarrow> 'v \<Rightarrow> 'v jsMap" where
  "mapSet [] k v = [(k, v)]"
| "mapSet ((k', v') # m) k v = (if k' = k then (k, v) # m else (k', v') # mapSet m k v)"

record ScanpathMetrics =
  totalLength :: real
  sp_fixationCount :: nat
  totalDuration :: real
  sp_meanFixationDuration :: real
  meanSaccadeAmplitude :: real
  aoiSequence :: "string list"
  aoiTransitionMatrix :: "nat jsMap jsMap"

definition distance :: "real \<Rightarrow> real \<Rightarrow> real \<Rightarrow> real \<Rightarrow> real" where
  "distance x1 y1 x2 y2 = (let dx = x2 - x1; dy = y2 - y1 in sqrt (dx * dx + dy * dy))"

text \<open>
  The expression \<^verbatim>\<open>aoi ? aoi.name : '__outside__'\<close> applied to the result of
  \<^verbatim>\<open>findAOIForFixation\<close>, which the scanpath code writes three times.
\<close>

definition aoiNameOf :: "Fixation \<Rightarrow> AOI list \<Rightarrow> string" where
  "aoiNameOf fixation aois =
     (case findAOIForFixation fixation aois of
        Some aoi \<Rightarrow> aoi_name aoi
      | None \<Rightarrow> ''__outside__'')"

text \<open>
  The first loop (\<open>i\<close> from 1): path length and saccade amplitudes. The list argument is
  the part of \<^verbatim>\<open>sortedFixations\<close> from index \<open>i - 1\<close> on.
\<close>

fun saccadeLoop :: "Fixation list \<Rightarrow> real \<Rightarrow> real list \<Rightarrow> real \<times> real list" where
  "saccadeLoop (prevFix # currFix # others) totalLength' saccadeAmplitudes =
     (let dist = distance (fix_x prevFix) (fix_y prevFix) (fix_x currFix) (fix_y currFix)
      in saccadeLoop (currFix # others) (totalLength' + dist) (saccadeAmplitudes @ [dist]))"
| "saccadeLoop [prevFix] totalLength' saccadeAmplitudes = (totalLength', saccadeAmplitudes)"
| "saccadeLoop [] totalLength' saccadeAmplitudes = (totalLength', saccadeAmplitudes)"

text \<open>The second loop: the AOI sequence with consecutive repetitions collapsed.\<close>

fun sequenceLoop :: "Fixation list \<Rightarrow> AOI list \<Rightarrow> string list \<Rightarrow> string option \<Rightarrow> string list"
  where
  "sequenceLoop [] aois aoiSequence' lastAOI = aoiSequence'"
| "sequenceLoop (fixation # others) aois aoiSequence' lastAOI =
     (let aoiName' = aoiNameOf fixation aois
      in if Some aoiName' \<noteq> lastAOI
         then sequenceLoop others aois (aoiSequence' @ [aoiName']) (Some aoiName')
         else sequenceLoop others aois aoiSequence' lastAOI)"

text \<open>
  The third loop (\<open>i\<close> from 1): the transition matrix. \<^verbatim>\<open>row\<close> is the inner \<^verbatim>\<open>Map\<close> object
  stored under \<^verbatim>\<open>prevName\<close>, so \<^verbatim>\<open>row.set\<close> changes the matrix entry in place. The
  non-null assertion \<^verbatim>\<open>transitionMatrix.get(prevName)!\<close> follows a \<^verbatim>\<open>set\<close> of that key
  when it was absent; the \<^const>\<open>None\<close> branch below is never taken (lemma \<open>mapGet_ensured\<close>).
\<close>

fun transitionLoop :: "Fixation list \<Rightarrow> AOI list \<Rightarrow> nat jsMap jsMap \<Rightarrow> nat jsMap jsMap" where
  "transitionLoop (prevFix # currFix # others) aois transitionMatrix =
     (let prevName = aoiNameOf prevFix aois;
          currName = aoiNameOf currFix aois;
          transitionMatrix1 =
            (if \<not> mapHas transitionMatrix prevName then mapSet transitionMatrix prevName []
             else transitionMatrix)
      in case mapGet transitionMatrix1 prevName of
           None \<Rightarrow> transitionLoop (currFix # others) aois transitionMatrix1
         | Some row \<Rightarrow>
             transitionLoop (currFix # others) aois
               (mapSet transitionMatrix1 prevName
                 (mapSet row currName
                   ((case mapGet row currName of None \<Rightarrow> 0 | Some c \<Rightarrow> c) + 1))))"
| "transitionLoop [prevFix] aois transitionMatrix = transitionMatrix"
| "transitionLoop [] aois transitionMatrix = transitionMatrix"

text \<open>
  The part of \<^verbatim>\<open>calculateScanpathMetrics\<close> after the sort, as a function of the array
  \<^verbatim>\<open>sortedFixations\<close>.
\<close>

definition scanpathFromSorted :: "Fixation list \<Rightarrow> AOI list \<Rightarrow> ScanpathMetrics" where
  "scanpathFromSorted sortedFixations aois =
     (let saccades = saccadeLoop sortedFixations 0 [];
          totalLength' = fst saccades;
          saccadeAmplitudes = snd saccades;
          aoiSequence' = sequenceLoop sortedFixations aois [] None;
          transitionMatrix = transitionLoop sortedFixations aois [];
          totalDuration' = sumDurations sortedFixations;
          meanSaccadeAmplitude' =
            (if length saccadeAmplitudes > 0
             then foldl (\<lambda>sum a. sum + a) 0 saccadeAmplitudes
                    / real (length saccadeAmplitudes)
             else 0)
      in \<lparr>totalLength = totalLength',
          sp_fixationCount = length sortedFixations,
          totalDuration = totalDuration',
          sp_meanFixationDuration = totalDuration' / real (length sortedFixations),
          meanSaccadeAmplitude = meanSaccadeAmplitude',
          aoiSequence = aoiSequence',
          aoiTransitionMatrix = transitionMatrix\<rparr>)"

definition emptyScanpath :: ScanpathMetrics where
  "emptyScanpath =
     \<lparr>totalLength = 0, sp_fixationCount = 0, totalDuration = 0,
      sp_meanFixationDuration = 0, meanSaccadeAmplitude = 0, aoiSequence = [],
      aoiTransitionMatrix = []\<rparr>"

definition calculateScanpathMetrics :: "Fixation list \<Rightarrow> AOI list \<Rightarrow> ScanpathMetrics" where
  "calculateScanpathMetrics fixations aois =
     (if length fixations = 0 then emptyScanpath
      else
        (let sortedFixations = sort_key startTime fixations
         in scanpathFromSorted sortedFixations aois))"

subsection \<open>First fixation\<close>

record FirstFixationMetrics =
  ff_aoiId :: string
  ff_aoiName :: string
  timeToFirstFixation :: "real option"
  firstFixationDuration :: "real option"
  firstFixationX :: "real option"
  firstFixationY :: "real option"
  entryCount :: nat

text \<open>The entry-counting loop; the state is \<^verbatim>\<open>entryCount\<close> and \<^verbatim>\<open>wasInAOI\<close>.\<close>

fun entryLoop :: "Fixation list \<Rightarrow> AOI \<Rightarrow> nat \<Rightarrow> bool \<Rightarrow> nat" where
  "entryLoop [] aoi entryCount' wasInAOI = entryCount'"
| "entryLoop (fixation # others) aoi entryCount' wasInAOI =
     (let isInAOI = isPointInAOI (fix_x fixation) (fix_y fixation) aoi
      in entryLoop others aoi (if isInAOI \<and> \<not> wasInAOI then entryCount' + 1 else entryCount')
           isInAOI)"

text \<open>
  The part of \<^verbatim>\<open>calculateFirstFixation\<close> after the sort, as a function of the array
  \<^verbatim>\<open>sortedFixations\<close>.
\<close>

definition firstFixationFromSorted ::
  "Fixation list \<Rightarrow> AOI list \<Rightarrow> real \<Rightarrow> FirstFixationMetrics list" where
  "firstFixationFromSorted sortedFixations aois videoStartTime =
     map (\<lambda>aoi.
       (let aoiFixations =
              filter (\<lambda>f. isPointInAOI (fix_x f) (fix_y f) aoi) sortedFixations;
            firstFixation =
              (if length aoiFixations > 0 then Some (aoiFixations ! 0) else None);
            entryCount' = entryLoop sortedFixations aoi 0 False
        in \<lparr>ff_aoiId = aoi_id aoi,
            ff_aoiName = aoi_name aoi,
            timeToFirstFixation =
              (case firstFixation of
                 Some f \<Rightarrow> Some ((startTime f - videoStartTime) * 1000)
               | None \<Rightarrow> None),
            firstFixationDuration =
              (case firstFixation of Some f \<Rightarrow> Some (duration f) | None \<Rightarrow> None),
            firstFixationX =
              (case firstFixation of Some f \<Rightarrow> Some (fix_x f) | None \<Rightarrow> None),
            firstFixationY =
              (case firstFixation of Some f \<Rightarrow> Some (fix_y f) | None \<Rightarrow> None),
            entryCount = entryCount'\<rparr>)) aois"

definition calculateFirstFixation ::
  "Fixation list \<Rightarrow> AOI list \<Rightarrow> real \<Rightarrow> FirstFixationMetrics list" where
  "calculateFirstFixation fixations aois videoStartTime =
     (let sortedFixations = sort_key startTime fixations
      in firstFixationFromSorted sortedFixations aois videoStartTime)"

section \<open>Full analysis\<close>

record Parameters =
  par_dispersionThreshold :: real
  par_minFixationDuration :: real

text \<open>
  The field \<^verbatim>\<open>fixations\<close> of the result holds the array that \<^verbatim>\<open>detectFixationsIDT\<close> returned.
  Its type is a parameter: the list of fixations where arrays are values, an address where
  arrays live in a store (section \<open>The caller's arrays\<close>).
\<close>

record 'f AnalysisResult =
  res_fixations :: 'f
  res_dwellTimeStats :: "DwellTimeStats list"
  res_scanpathMetrics :: ScanpathMetrics
  res_firstFixationMetrics :: "FirstFixationMetrics list"
  res_parameters :: Parameters

text \<open>The \<^verbatim>\<open>options\<close> object: each field may be absent.\<close>

record Options =
  opt_dispersionThreshold :: "real option"
  opt_minFixationDuration :: "real option"
  opt_videoStartTime :: "real option"

text \<open>
  The kinds of failure that a caller could be told about. \<^verbatim>\<open>analyzeGazeData\<close> and the
  functions it calls contain no \<^verbatim>\<open>throw\<close> and no validation of their arguments, so the
  model of \<^verbatim>\<open>analyzeGazeData\<close> has a single outcome, a returned result (\<^const>\<open>Inr\<close>).
\<close>

datatype error = InvalidAOI | InvalidGazeData | InvalidParameters

definition analyzeGazeData ::
  "GazePoint list \<Rightarrow> AOI list \<Rightarrow> Options \<Rightarrow> error + Fixation list AnalysisResult" where
  "analyzeGazeData gazePoints aois options =
     (let dispersionThreshold =
            (case opt_dispersionThreshold options of
               Some v \<Rightarrow> v | None \<Rightarrow> DEFAULT_DISPERSION_THRESHOLD);
          minFixationDuration =
            (case opt_minFixationDuration options of
               Some v \<Rightarrow> v | None \<Rightarrow> DEFAULT_MIN_FIXATION_DURATION);
          videoStartTime = (case opt_videoStartTime options of Some v \<Rightarrow> v | None \<Rightarrow> 0);
          fixations = detectFixationsIDT gazePoints dispersionThreshold minFixationDuration;
          dwellTimeStats = calculateDwellTime fixations aois;
          scanpathMetrics = calculateScanpathMetrics fixations aois;
          firstFixationMetrics = calculateFirstFixation fixations aois videoStartTime
      in Inr \<lparr>res_fixations = fixations,
               res_dwellTimeStats = dwellTimeStats,
               res_scanpathMetrics = scanpathMetrics,
               res_firstFixationMetrics = firstFixationMetrics,
               res_parameters =
                 \<lparr>par_dispersionThreshold = dispersionThreshold,
                  par_minFixationDuration = minFixationDuration\<rparr>\<rparr>)"

section \<open>Export\<close>

text \<open>\<^verbatim>\<open>Array.prototype.join\<close> on an array of strings.\<close>

fun join :: "string \<Rightarrow> string list \<Rightarrow> string" where
  "join sep [] = []"
| "join sep [s] = s"
| "join sep (s # t # ss) = s @ sep @ join sep (t # ss)"

text \<open>
  The fixations block of \<^verbatim>\<open>analysisToCSV\<close>. The rendering of numbers is a parameter:
  \<open>toFixed v d\<close> stands for \<^verbatim>\<open>v.toFixed(d)\<close> and \<open>numStr n\<close> for the string that \<^verbatim>\<open>join\<close>
  makes of the integer \<open>n\<close>. \<open>fixationCells\<close> is the array literal of one row, before
  \<^verbatim>\<open>.join(',')\<close>; its last cell is the \<^verbatim>\<open>aoi\<close> column.
\<close>

definition fixationCells ::
  "(real \<Rightarrow> nat \<Rightarrow> string) \<Rightarrow> (nat \<Rightarrow> string) \<Rightarrow> AOI list \<Rightarrow> Fixation \<Rightarrow> string list" where
  "fixationCells toFixed numStr aois f =
     (let aoi = find (\<lambda>a. isPointInAOI (fix_x f) (fix_y f) a) aois
      in [numStr (fix_id f),
          toFixed (startTime f) 3,
          toFixed (endTime f) 3,
          toFixed (duration f) 1,
          toFixed (fix_x f) 4,
          toFixed (fix_y f) 4,
          numStr (pointCount f),
          (case aoi of Some a \<Rightarrow> aoi_name a | None \<Rightarrow> ''outside'')])"

definition fixationHeaders :: "string list" where
  "fixationHeaders =
     [''id'', ''start_time_s'', ''end_time_s'', ''duration_ms'', ''x'', ''y'', ''point_count'',
      ''aoi'']"

definition fixationsCSV ::
  "(real \<Rightarrow> nat \<Rightarrow> string) \<Rightarrow> (nat \<Rightarrow> string) \<Rightarrow> Fixation list AnalysisResult \<Rightarrow> AOI list
     \<Rightarrow> string" where
  "fixationsCSV toFixed numStr result aois =
     (let fixationRows =
            map (\<lambda>f. join '','' (fixationCells toFixed numStr aois f)) (res_fixations result)
      in join [CHR 0x0A] (join '','' fixationHeaders # fixationRows))"

subsection \<open>Dwell time in rounded arithmetic\<close>

text \<open>
  Whether percentages add up to 100 depends on the rounding of the arithmetic, so
  \<^verbatim>\<open>calculateDwellTime\<close> is also given with the rounding written out: \<open>fl\<close> is applied to
  the exact result of every addition, division and multiplication the function performs
  (the additions of \<^verbatim>\<open>reduce\<close>, \<^verbatim>\<open>totalDwellTime / fixationCount\<close>,
  \<^verbatim>\<open>totalDwellTime / totalViewingTime\<close> and the product with 100). Comparisons, filters and
  counts are exact. With the identity for \<open>fl\<close> this is \<^const>\<open>calculateDwellTime\<close>
  (lemma \<open>calculateDwellTime_fl_exact\<close>).
\<close>

definition sumDurations_fl :: "(real \<Rightarrow> real) \<Rightarrow> Fixation list \<Rightarrow> real" where
  "sumDurations_fl fl fs = foldl (\<lambda>sum f. fl (sum + duration f)) 0 fs"

definition calculateDwellTime_fl ::
  "(real \<Rightarrow> real) \<Rightarrow> Fixation list \<Rightarrow> AOI list \<Rightarrow> DwellTimeStats list" where
  "calculateDwellTime_fl fl fixations aois =
     (let totalViewingTime = sumDurations_fl fl fixations;
          stats = map (\<lambda>aoi.
            (let aoiFixations = filter (\<lambda>f. isPointInAOI (fix_x f) (fix_y f) aoi) fixations;
                 totalDwellTime' = sumDurations_fl fl aoiFixations;
                 fixationCount' = length aoiFixations
             in \<lparr>aoiId = aoi_id aoi,
                 aoiName = aoi_name aoi,
                 totalDwellTime = totalDwellTime',
                 fixationCount = fixationCount',
                 meanFixationDuration =
                   (if fixationCount' > 0 then fl (totalDwellTime' / real fixationCount')
                    else 0),
                 percentOfTotal =
                   (if totalViewingTime > 0
                    then fl (fl (totalDwellTime' / totalViewingTime) * 100)
                    else 0)\<rparr>)) aois;
          outsideFixations =
            filter (\<lambda>f. \<not> list_ex (\<lambda>aoi. isPointInAOI (fix_x f) (fix_y f) aoi) aois) fixations;
          outsideDwellTime = sumDurations_fl fl outsideFixations
      in stats @
         [\<lparr>aoiId = ''__outside__'',
           aoiName = ''Outside AOIs'',
           totalDwellTime = outsideDwellTime,
           fixationCount = length outsideFixations,
           meanFixationDuration =
             (if length outsideFixations > 0
              then fl (outsideDwellTime / real (length outsideFixations)) else 0),
           percentOfTotal =
             (if totalViewingTime > 0
              then fl (fl (outsideDwellTime / totalViewingTime) * 100)
              else 0)\<rparr>])"




section \<open>Example inputs\<close>

text \<open>Concrete records for the instances at which the theorems below are applied.\<close>

definition gazeAt :: "real \<Rightarrow> real \<Rightarrow> real \<Rightarrow> GazePoint" where
  "gazeAt t px py =
     \<lparr>timestamp = t, frameNumber = 0, gp_x = px, gp_y = py, screenX = 0, screenY = 0\<rparr>"

definition fixationAtPoint :: "nat \<Rightarrow> real \<Rightarrow> real \<Rightarrow> real \<Rightarrow> real \<Rightarrow> Fixation" where
  "fixationAtPoint n t d px py =
     \<lparr>fix_id = n, startTime = t, endTime = t + d / 1000, duration = d, fix_x = px, fix_y = py,
      pointCount = 0, points = []\<rparr>"

definition rectAOI :: "string \<Rightarrow> real \<Rightarrow> real \<Rightarrow> real \<Rightarrow> real \<Rightarrow> AOI" where
  "rectAOI nm ax ay w h =
     \<lparr>aoi_id = nm, aoi_name = nm, color = ''#ff0000'',
      bounds = \<lparr>b_x = ax, b_y = ay, width = w, height = h\<rparr>\<rparr>"

definition fourPoints :: "GazePoint list" where
  "fourPoints = [gazeAt 0 0 0, gazeAt 1 0 0, gazeAt 2 5 0, gazeAt 3 5 0]"

definition unitOptions :: Options where
  "unitOptions = \<lparr>opt_dispersionThreshold = Some 1, opt_minFixationDuration = Some 100,
     opt_videoStartTime = None\<rparr>"


section \<open>Notions used in the statements\<close>

text \<open>The number of AOIs of the list that contain the centroid of a fixation.\<close>

definition containingCount :: "Fixation \<Rightarrow> AOI list \<Rightarrow> nat" where
  "containingCount f aois = length (filter (\<lambda>aoi. isPointInAOI (fix_x f) (fix_y f) aoi) aois)"

text \<open>The call \<^verbatim>\<open>analyzeGazeData(gazePoints, aois)\<close> with the default \<^verbatim>\<open>options = {}\<close>.\<close>

definition noOptions :: Options where
  "noOptions = \<lparr>opt_dispersionThreshold = None, opt_minFixationDuration = None,
     opt_videoStartTime = None\<rparr>"

text \<open>
  The entry count as the specification words it: the number of rising edges of a sequence
  of truth values, that is, of positions that are inside while the position before is not;
  the first position counts when it is inside.
\<close>

definition risingEdges :: "bool list \<Rightarrow> nat" where
  "risingEdges inside =
     length (filter (\<lambda>i. inside ! i \<and> (i = 0 \<or> \<not> inside ! (i - 1))) [0..<length inside])"

text \<open>The same count when the state before the first element is \<open>w\<close>.\<close>

definition risingEdgesFrom :: "bool \<Rightarrow> bool list \<Rightarrow> nat" where
  "risingEdgesFrom w inside =
     length (filter (\<lambda>i. inside ! i \<and> \<not> (if i = 0 then w else inside ! (i - 1)))
       [0..<length inside])"

text \<open>
  Reading a transition matrix: the sum of the counts of a row, the sum of all counts, and
  the count stored for a pair of labels (0 when the row or the entry is absent).
\<close>

definition rowTotal :: "nat jsMap \<Rightarrow> nat" where
  "rowTotal row = sum_list (map snd row)"

definition matrixTotal :: "nat jsMap jsMap \<Rightarrow> nat" where
  "matrixTotal m = sum_list (map (\<lambda>(k, row). rowTotal row) m)"

definition matrixCell :: "nat jsMap jsMap \<Rightarrow> string \<Rightarrow> string \<Rightarrow> nat" where
  "matrixCell m a b =
     (case mapGet m a of
        None \<Rightarrow> 0
      | Some row \<Rightarrow> (case mapGet row b of None \<Rightarrow> 0 | Some c \<Rightarrow> c))"

text \<open>
  The body of the transition loop, as a function of the matrix and the two labels
  (lemma \<open>transitionLoop_step\<close> relates it to \<^const>\<open>transitionLoop\<close>).
\<close>

definition countTransition :: "nat jsMap jsMap \<Rightarrow> string \<Rightarrow> string \<Rightarrow> nat jsMap jsMap" where
  "countTransition m prevName currName =
     (let m1 = (if \<not> mapHas m prevName then mapSet m prevName [] else m)
      in case mapGet m1 prevName of
           None \<Rightarrow> m1
         | Some row \<Rightarrow>
             mapSet m1 prevName
               (mapSet row currName ((case mapGet row currName of None \<Rightarrow> 0 | Some c \<Rightarrow> c) + 1)))"

text \<open>The labels of the fixations, one per fixation, not collapsed.\<close>

definition labels :: "Fixation list \<Rightarrow> AOI list \<Rightarrow> string list" where
  "labels fs aois = map (\<lambda>f. aoiNameOf f aois) fs"

section \<open>The caller's arrays\<close>

text \<open>
  Whether the module changes the arrays it is given depends on which array object each
  mutating call acts on, so here the arrays live in a store: an address is an index into
  the list of the arrays that exist, and creating an array appends to that list. There is
  one list per element type. The elements are values: no statement of the module assigns
  to a field of a \<^verbatim>\<open>GazePoint\<close>, a \<^verbatim>\<open>Fixation\<close> or an \<^verbatim>\<open>AOI\<close>.

  The operations of the module that change an array are \<^verbatim>\<open>sort\<close>, which reorders the array
  it is called on and returns that same array, and \<^verbatim>\<open>push\<close>. The spread \<^verbatim>\<open>[...xs]\<close> creates a
  new array with the elements of \<^verbatim>\<open>xs\<close>. \<^verbatim>\<open>map\<close>, \<^verbatim>\<open>filter\<close>, \<^verbatim>\<open>slice\<close>, \<^verbatim>\<open>reduce\<close>, \<^verbatim>\<open>some\<close>,
  \<^verbatim>\<open>find\<close> and \<^verbatim>\<open>for ... of\<close> read their array and leave it as it is; the arrays that \<^verbatim>\<open>map\<close>,
  \<^verbatim>\<open>filter\<close> and \<^verbatim>\<open>slice\<close> create are used as values.
\<close>

type_synonym addr = nat

record store =
  gazeArrays :: "GazePoint list list"
  fixationArrays :: "Fixation list list"
  aoiArrays :: "AOI list list"

definition newArray :: "'a list list \<Rightarrow> 'a list \<Rightarrow> 'a list list \<times> addr" where
  "newArray arrays elems = (arrays @ [elems], length arrays)"

definition sortInPlace :: "('a \<Rightarrow> real) \<Rightarrow> 'a list list \<Rightarrow> addr \<Rightarrow> 'a list list" where
  "sortInPlace key arrays a = arrays[a := sort_key key (arrays ! a)]"

text \<open>
  \<^verbatim>\<open>detectFixationsIDT\<close> on the store. The early \<^verbatim>\<open>return []\<close> and \<^verbatim>\<open>const fixations = []\<close>
  create the result array; \<^verbatim>\<open>[...gazePoints]\<close> creates \<^verbatim>\<open>sortedPoints\<close>, which \<^verbatim>\<open>sort\<close> then
  reorders; the loop reads \<^verbatim>\<open>sortedPoints\<close> and pushes onto \<^verbatim>\<open>fixations\<close>.
\<close>

definition detectFixationsIDT_st :: "store \<Rightarrow> addr \<Rightarrow> real \<Rightarrow> real \<Rightarrow> store \<times> addr" where
  "detectFixationsIDT_st s gazePoints dispersionThreshold minDuration =
     (if length (gazeArrays s ! gazePoints) < 2
      then
        (let created = newArray (fixationArrays s) []
         in (s\<lparr>fixationArrays := fst created\<rparr>, snd created))
      else
        (let created = newArray (fixationArrays s) [];
             fixations = snd created;
             copied = newArray (gazeArrays s) (gazeArrays s ! gazePoints);
             sortedPoints = snd copied;
             gazeArrays' = sortInPlace timestamp (fst copied) sortedPoints;
             fixationArrays' =
               (fst created)[fixations :=
                 idtLoop (gazeArrays' ! sortedPoints) dispersionThreshold minDuration 0 1
                   (fst created ! fixations)]
         in (s\<lparr>gazeArrays := gazeArrays', fixationArrays := fixationArrays'\<rparr>, fixations)))"

text \<open>
  \<^verbatim>\<open>calculateScanpathMetrics\<close> and \<^verbatim>\<open>calculateFirstFixation\<close> on the store: each sorts a
  spread copy of \<^verbatim>\<open>fixations\<close>. \<^verbatim>\<open>calculateDwellTime\<close> only reads its two arrays.
\<close>

definition calculateScanpathMetrics_st :: "store \<Rightarrow> addr \<Rightarrow> addr \<Rightarrow> store \<times> ScanpathMetrics"
  where
  "calculateScanpathMetrics_st s fixations aois =
     (if length (fixationArrays s ! fixations) = 0 then (s, emptyScanpath)
      else
        (let copied = newArray (fixationArrays s) (fixationArrays s ! fixations);
             sortedFixations = snd copied;
             fixationArrays' = sortInPlace startTime (fst copied) sortedFixations
         in (s\<lparr>fixationArrays := fixationArrays'\<rparr>,
             scanpathFromSorted (fixationArrays' ! sortedFixations) (aoiArrays s ! aois))))"

definition calculateFirstFixation_st ::
  "store \<Rightarrow> addr \<Rightarrow> addr \<Rightarrow> real \<Rightarrow> store \<times> FirstFixationMetrics list" where
  "calculateFirstFixation_st s fixations aois videoStartTime =
     (let copied = newArray (fixationArrays s) (fixationArrays s ! fixations);
          sortedFixations = snd copied;
          fixationArrays' = sortInPlace startTime (fst copied) sortedFixations
      in (s\<lparr>fixationArrays := fixationArrays'\<rparr>,
          firstFixationFromSorted (fixationArrays' ! sortedFixations) (aoiArrays s ! aois)
            videoStartTime))"

definition calculateDwellTime_st :: "store \<Rightarrow> addr \<Rightarrow> addr \<Rightarrow> DwellTimeStats list" where
  "calculateDwellTime_st s fixations aois =
     calculateDwellTime (fixationArrays s ! fixations) (aoiArrays s ! aois)"

text \<open>
  \<^verbatim>\<open>analyzeGazeData\<close> on the store. The field \<^verbatim>\<open>fixations\<close> of the result is the address of the
  array that \<^verbatim>\<open>detectFixationsIDT\<close> created.
\<close>

definition analyzeGazeData_st ::
  "store \<Rightarrow> addr \<Rightarrow> addr \<Rightarrow> Options \<Rightarrow> store \<times> (error + addr AnalysisResult)" where
  "analyzeGazeData_st s gazePoints aois options =
     (let dispersionThreshold =
            (case opt_dispersionThreshold options of
               Some v \<Rightarrow> v | None \<Rightarrow> DEFAULT_DISPERSION_THRESHOLD);
          minFixationDuration =
            (case opt_minFixationDuration options of
               Some v \<Rightarrow> v | None \<Rightarrow> DEFAULT_MIN_FIXATION_DURATION);
          videoStartTime = (case opt_videoStartTime options of Some v \<Rightarrow> v | None \<Rightarrow> 0);
          detected = detectFixationsIDT_st s gazePoints dispersionThreshold minFixationDuration;
          s1 = fst detected;
          fixations = snd detected;
          dwellTimeStats = calculateDwellTime_st s1 fixations aois;
          scanned = calculateScanpathMetrics_st s1 fixations aois;
          s2 = fst scanned;
          scanpathMetrics = snd scanned;
          firsts = calculateFirstFixation_st s2 fixations aois videoStartTime;
          s3 = fst firsts;
          firstFixationMetrics = snd firsts
      in (s3,
          Inr \<lparr>res_fixations = fixations,
               res_dwellTimeStats = dwellTimeStats,
               res_scanpathMetrics = scanpathMetrics,
               res_firstFixationMetrics = firstFixationMetrics,
               res_parameters =
                 \<lparr>par_dispersionThreshold = dispersionThreshold,
                  par_minFixationDuration = minFixationDuration\<rparr>\<rparr>))"

text \<open>
  The result with its \<^verbatim>\<open>fixations\<close> array read from a store, for comparison with
  \<^const>\<open>analyzeGazeData\<close>.
\<close>

definition readResult :: "store \<Rightarrow> addr AnalysisResult \<Rightarrow> Fixation list AnalysisResult" where
  "readResult s r =
     \<lparr>res_fixations = fixationArrays s ! res_fixations r,
      res_dwellTimeStats = res_dwellTimeStats r,
      res_scanpathMetrics = res_scanpathMetrics r,
      res_firstFixationMetrics = res_firstFixationMetrics r,
      res_parameters = res_parameters r\<rparr>"

definition exampleStore :: store where
  "exampleStore =
     \<lparr>gazeArrays = [[gazeAt 1 1 0, gazeAt 0 0 0]],
      fixationArrays = [],
      aoiArrays = [[rectAOI ''A'' 0 0 1 1]]\<rparr>"

section \<open>Properties of the fixation detector\<close>

lemma pointDist_nonneg: "0 \<le> pointDist p q"
  by (simp add: pointDist_def Let_def)

lemma pointDist_self: "pointDist p p = 0"
  by (simp add: pointDist_def Let_def)

lemma pointDist_sym: "pointDist p q = pointDist q p"
proof -
  have "(gp_x p - gp_x q) * (gp_x p - gp_x q) = (gp_x q - gp_x p) * (gp_x q - gp_x p)"
    by (simp add: algebra_simps)
  moreover have "(gp_y p - gp_y q) * (gp_y p - gp_y q) = (gp_y q - gp_y p) * (gp_y q - gp_y p)"
    by (simp add: algebra_simps)
  ultimately show ?thesis
    by (simp add: pointDist_def Let_def)
qed

lemma dispersionInner_le_iff:
  "dispersionInner p qs m \<le> t \<longleftrightarrow> m \<le> t \<and> (\<forall>q\<in>set qs. pointDist p q \<le> t)"
  by (induction qs arbitrary: m) (auto simp: Let_def)

lemma dispersionOuter_le_iff:
  "0 \<le> t \<Longrightarrow>
   dispersionOuter ps m \<le> t \<longleftrightarrow> m \<le> t \<and> (\<forall>a\<in>set ps. \<forall>b\<in>set ps. pointDist a b \<le> t)"
proof (induction ps arbitrary: m)
  case Nil
  then show ?case by simp
next
  case (Cons p ps)
  have "dispersionOuter (p # ps) m \<le> t \<longleftrightarrow>
      dispersionInner p ps m \<le> t \<and> (\<forall>a\<in>set ps. \<forall>b\<in>set ps. pointDist a b \<le> t)"
    using Cons by simp
  also have "\<dots> \<longleftrightarrow> m \<le> t \<and> (\<forall>q\<in>set ps. pointDist p q \<le> t) \<and>
      (\<forall>a\<in>set ps. \<forall>b\<in>set ps. pointDist a b \<le> t)"
    by (auto simp: dispersionInner_le_iff)
  also have "\<dots> \<longleftrightarrow> m \<le> t \<and> (\<forall>a\<in>set (p # ps). \<forall>b\<in>set (p # ps). pointDist a b \<le> t)"
    using Cons.prems by (auto simp: pointDist_self pointDist_sym [of _ p])
  finally show ?case .
qed

lemma dispersionInner_ge: "m \<le> dispersionInner p qs m"
proof (induction qs arbitrary: m)
  case Nil
  then show ?case by simp
next
  case (Cons q qs)
  have "m \<le> (if pointDist p q > m then pointDist p q else m)" by simp
  also have "\<dots> \<le> dispersionInner p qs (if pointDist p q > m then pointDist p q else m)"
    by (rule Cons.IH)
  finally show ?case by (simp add: Let_def)
qed

lemma dispersionOuter_ge: "m \<le> dispersionOuter ps m"
proof (induction ps arbitrary: m)
  case Nil
  then show ?case by simp
next
  case (Cons p ps)
  have "m \<le> dispersionInner p ps m" by (rule dispersionInner_ge)
  also have "\<dots> \<le> dispersionOuter ps (dispersionInner p ps m)" by (rule Cons.IH)
  finally show ?case by simp
qed

lemma calculateDispersion_nonneg: "0 \<le> calculateDispersion pts"
  by (simp add: calculateDispersion_def dispersionOuter_ge)

lemma calculateDispersion_le_iff:
  "calculateDispersion pts \<le> t \<longleftrightarrow>
     0 \<le> t \<and> (\<forall>a\<in>set pts. \<forall>b\<in>set pts. pointDist a b \<le> t)"
proof (cases "0 \<le> t")
  case False
  then show ?thesis using calculateDispersion_nonneg [of pts] by auto
next
  case nonneg: True
  show ?thesis
  proof (cases "length pts < 2")
    case False
    then show ?thesis
      using nonneg by (simp add: calculateDispersion_def dispersionOuter_le_iff)
  next
    case True
    then have "pts = [] \<or> (\<exists>p. pts = [p])"
      by (cases pts) (auto simp: length_Suc_conv)
    then show ?thesis
      using nonneg True by (auto simp: calculateDispersion_def pointDist_self)
  qed
qed

lemma dispersionInner_attained:
  "dispersionInner p qs m = m \<or> (\<exists>q\<in>set qs. dispersionInner p qs m = pointDist p q)"
proof (induction qs arbitrary: m)
  case Nil
  then show ?case by simp
next
  case (Cons q qs)
  show ?case
    using Cons.IH [of "if pointDist p q > m then pointDist p q else m"]
    by (auto simp: Let_def split: if_splits)
qed

lemma dispersionOuter_attained:
  "dispersionOuter ps m = m \<or>
   (\<exists>a\<in>set ps. \<exists>b\<in>set ps. dispersionOuter ps m = pointDist a b)"
proof (induction ps arbitrary: m)
  case Nil
  then show ?case by simp
next
  case (Cons p ps)
  show ?case
    using Cons.IH [of "dispersionInner p ps m"] dispersionInner_attained [of p ps m]
    by auto
qed

lemma calculateDispersion_attained:
  "pts \<noteq> [] \<Longrightarrow> \<exists>a\<in>set pts. \<exists>b\<in>set pts. calculateDispersion pts = pointDist a b"
proof (cases "length pts < 2")
  case True
  assume "pts \<noteq> []"
  with True obtain p where "pts = [p]"
    by (cases pts) auto
  then show ?thesis by (simp add: calculateDispersion_def pointDist_self)
next
  case False
  assume ne: "pts \<noteq> []"
  then obtain p where p: "p \<in> set pts" by (cases pts) auto
  from dispersionOuter_attained [of pts 0] show ?thesis
  proof
    assume "dispersionOuter pts 0 = 0"
    with False have "calculateDispersion pts = pointDist p p"
      by (simp add: calculateDispersion_def pointDist_self)
    with p show ?thesis by blast
  next
    assume "\<exists>a\<in>set pts. \<exists>b\<in>set pts. dispersionOuter pts 0 = pointDist a b"
    with False show ?thesis by (simp add: calculateDispersion_def)
  qed
qed

lemma calculateDispersion_eq_max: "calculateDispersion pts = maxPairwiseDistance pts"
proof (cases "length pts < 2")
  case True
  then show ?thesis by (simp add: calculateDispersion_def maxPairwiseDistance_def)
next
  case False
  then have ne: "pts \<noteq> []" by auto
  let ?D = "(\<lambda>(p, q). pointDist p q) ` (set pts \<times> set pts)"
  have fin: "finite ?D" by simp
  have mem: "calculateDispersion pts \<in> ?D"
    using calculateDispersion_attained [OF ne] by auto
  have ub: "\<And>d. d \<in> ?D \<Longrightarrow> d \<le> calculateDispersion pts"
    using calculateDispersion_le_iff [of pts "calculateDispersion pts"] by auto
  have "Max ?D = calculateDispersion pts"
    using fin ub mem by (rule Max_eqI)
  with False show ?thesis by (simp add: maxPairwiseDistance_def)
qed

lemma expandWindow_dispersion:
  "calculateDispersion windowPoints \<le> thr \<Longrightarrow>
   calculateDispersion (snd (expandWindow sortedPoints thr windowStart windowEnd windowPoints))
     \<le> thr"
proof (induction sortedPoints thr windowStart windowEnd windowPoints
    rule: expandWindow.induct)
  case (1 sortedPoints thr windowStart windowEnd windowPoints)
  show ?case
  proof (cases "windowEnd + 1 < length sortedPoints \<and>
      calculateDispersion (slice sortedPoints windowStart (windowEnd + 2)) \<le> thr")
    case True
    with "1.IH" have "calculateDispersion (snd (expandWindow sortedPoints thr windowStart
        (windowEnd + 1) (slice sortedPoints windowStart (windowEnd + 2)))) \<le> thr"
      by simp
    with True show ?thesis
      by (subst expandWindow.simps) simp
  next
    case False
    with "1.prems" show ?thesis
      by (subst expandWindow.simps) (auto simp: Let_def)
  qed
qed

lemma expandWindow_slice:
  "windowPoints = slice sortedPoints windowStart (windowEnd + 1) \<Longrightarrow>
   snd (expandWindow sortedPoints thr windowStart windowEnd windowPoints) =
     slice sortedPoints windowStart
       (fst (expandWindow sortedPoints thr windowStart windowEnd windowPoints) + 1)"
proof (induction sortedPoints thr windowStart windowEnd windowPoints
    rule: expandWindow.induct)
  case (1 sortedPoints thr windowStart windowEnd windowPoints)
  show ?case
  proof (cases "windowEnd + 1 < length sortedPoints \<and>
      calculateDispersion (slice sortedPoints windowStart (windowEnd + 2)) \<le> thr")
    case True
    with "1.IH" have "snd (expandWindow sortedPoints thr windowStart
        (windowEnd + 1) (slice sortedPoints windowStart (windowEnd + 2))) =
      slice sortedPoints windowStart (fst (expandWindow sortedPoints thr windowStart
        (windowEnd + 1) (slice sortedPoints windowStart (windowEnd + 2))) + 1)"
      by simp
    with True show ?thesis
      by (subst (1 2) expandWindow.simps) simp
  next
    case False
    with "1.prems" show ?thesis
      by (subst (1 2) expandWindow.simps) (auto simp: Let_def)
  qed
qed

lemma expandWindow_lt:
  "windowEnd < length sortedPoints \<Longrightarrow>
   fst (expandWindow sortedPoints thr windowStart windowEnd windowPoints) < length sortedPoints"
proof (induction sortedPoints thr windowStart windowEnd windowPoints
    rule: expandWindow.induct)
  case (1 sortedPoints thr windowStart windowEnd windowPoints)
  show ?case
  proof (cases "windowEnd + 1 < length sortedPoints \<and>
      calculateDispersion (slice sortedPoints windowStart (windowEnd + 2)) \<le> thr")
    case True
    with "1.IH" have "fst (expandWindow sortedPoints thr windowStart
        (windowEnd + 1) (slice sortedPoints windowStart (windowEnd + 2))) < length sortedPoints"
      by simp
    with True show ?thesis
      by (subst expandWindow.simps) simp
  next
    case False
    with "1.prems" show ?thesis
      by (subst expandWindow.simps) (auto simp: Let_def)
  qed
qed

lemma idtLoop_unfold:
  "idtLoop sp thr md ws fid fs =
     (if \<not> ws < length sp then fs
      else if length sp \<le> initialEnd sp md ws then fs
      else if \<not> calculateDispersion (slice sp ws (initialEnd sp md ws + 1)) \<le> thr
        then idtLoop sp thr md (ws + 1) fid fs
      else if md \<le> duration (fixationAt sp thr md ws fid)
        then idtLoop sp thr md (fst (expanded sp thr md ws) + 1) (fid + 1)
               (fs @ [fixationAt sp thr md ws fid])
      else idtLoop sp thr md (fst (expanded sp thr md ws) + 1) fid fs)"
  by (subst idtLoop.simps) (simp add: Let_def initialEnd_def expanded_def fixationAt_def)

lemma idtLoop_induct2 [case_names stop short slide emit skip]:
  assumes stop: "\<And>ws fid fs. \<not> ws < length sp \<Longrightarrow> P ws fid fs"
    and short: "\<And>ws fid fs. ws < length sp \<Longrightarrow> length sp \<le> initialEnd sp md ws \<Longrightarrow> P ws fid fs"
    and slide: "\<And>ws fid fs. ws < length sp \<Longrightarrow> initialEnd sp md ws < length sp \<Longrightarrow>
        \<not> calculateDispersion (slice sp ws (initialEnd sp md ws + 1)) \<le> thr \<Longrightarrow>
        P (ws + 1) fid fs \<Longrightarrow> P ws fid fs"
    and emit: "\<And>ws fid fs. ws < length sp \<Longrightarrow> initialEnd sp md ws < length sp \<Longrightarrow>
        calculateDispersion (slice sp ws (initialEnd sp md ws + 1)) \<le> thr \<Longrightarrow>
        md \<le> duration (fixationAt sp thr md ws fid) \<Longrightarrow>
        P (fst (expanded sp thr md ws) + 1) (fid + 1) (fs @ [fixationAt sp thr md ws fid]) \<Longrightarrow>
        P ws fid fs"
    and skip: "\<And>ws fid fs. ws < length sp \<Longrightarrow> initialEnd sp md ws < length sp \<Longrightarrow>
        calculateDispersion (slice sp ws (initialEnd sp md ws + 1)) \<le> thr \<Longrightarrow>
        \<not> md \<le> duration (fixationAt sp thr md ws fid) \<Longrightarrow>
        P (fst (expanded sp thr md ws) + 1) fid fs \<Longrightarrow> P ws fid fs"
  shows "P ws fid fs"
  using assms
proof (induction sp thr md ws fid fs rule: idtLoop.induct)
  case (1 sp thr md ws fid fs)
  note stop = "1.prems"(1) and short = "1.prems"(2) and slide = "1.prems"(3)
    and emit = "1.prems"(4) and skip = "1.prems"(5)
  note IH1 = "1.IH"(1) [OF _ _ _ _ _ _ _ _ _ _ _ _ _ _ "1.prems"]
    and IH2 = "1.IH"(2) [OF _ _ _ _ _ _ _ _ _ _ _ _ _ _ "1.prems"]
    and IH3 = "1.IH"(3) [OF _ _ _ _ _ _ "1.prems"]
  show ?case
  proof (cases "ws < length sp")
    case False
    then show ?thesis by (rule stop)
  next
    case ws: True
    show ?thesis
    proof (cases "length sp \<le> initialEnd sp md ws")
      case True
      with ws show ?thesis by (rule short)
    next
      case False
      then have ie: "initialEnd sp md ws < length sp" by simp
      have ie': "\<not> length sp \<le> findWindowEnd sp ws ws md"
        using False by (simp add: initialEnd_def)
      show ?thesis
      proof (cases "calculateDispersion (slice sp ws (initialEnd sp md ws + 1)) \<le> thr")
        case False
        then have "\<not> calculateDispersion (slice sp ws (findWindowEnd sp ws ws md + 1)) \<le> thr"
          by (simp add: initialEnd_def)
        from IH3 [OF ws refl ie' refl refl this]
        show ?thesis by (rule slide [OF ws ie False])
      next
        case disp: True
        then have disp': "calculateDispersion (slice sp ws (findWindowEnd sp ws ws md + 1)) \<le> thr"
          by (simp add: initialEnd_def)
        show ?thesis
        proof (cases "md \<le> duration (fixationAt sp thr md ws fid)")
          case True
          then have "md \<le> (timestamp (snd (expandWindow sp thr ws (findWindowEnd sp ws ws md)
              (slice sp ws (findWindowEnd sp ws ws md + 1))) !
                (length (snd (expandWindow sp thr ws (findWindowEnd sp ws ws md)
              (slice sp ws (findWindowEnd sp ws ws md + 1)))) - 1)) -
              timestamp (snd (expandWindow sp thr ws (findWindowEnd sp ws ws md)
              (slice sp ws (findWindowEnd sp ws ws md + 1))) ! 0)) * 1000"
            by (simp add: fixationAt_def expanded_def initialEnd_def Let_def)
          from IH1 [OF ws refl ie' refl refl disp' refl refl refl refl refl refl refl this]
          have "P (fst (expanded sp thr md ws) + 1) (fid + 1) (fs @ [fixationAt sp thr md ws fid])"
            by (simp add: fixationAt_def expanded_def initialEnd_def Let_def)
          then show ?thesis by (rule emit [OF ws ie disp True])
        next
          case False
          then have "\<not> md \<le> (timestamp (snd (expandWindow sp thr ws (findWindowEnd sp ws ws md)
              (slice sp ws (findWindowEnd sp ws ws md + 1))) !
                (length (snd (expandWindow sp thr ws (findWindowEnd sp ws ws md)
              (slice sp ws (findWindowEnd sp ws ws md + 1)))) - 1)) -
              timestamp (snd (expandWindow sp thr ws (findWindowEnd sp ws ws md)
              (slice sp ws (findWindowEnd sp ws ws md + 1))) ! 0)) * 1000"
            by (simp add: fixationAt_def expanded_def initialEnd_def Let_def)
          from IH2 [OF ws refl ie' refl refl disp' refl refl refl refl refl refl refl this]
          have "P (fst (expanded sp thr md ws) + 1) fid fs"
            by (simp add: fixationAt_def expanded_def initialEnd_def Let_def)
          then show ?thesis by (rule skip [OF ws ie disp False])
        qed
      qed
    qed
  qed
qed

lemma initialEnd_ge: "ws \<le> initialEnd sp md ws"
  by (simp add: initialEnd_def findWindowEnd_ge)

lemma expanded_ge: "initialEnd sp md ws \<le> fst (expanded sp thr md ws)"
  by (simp add: expanded_def expandWindow_ge)

lemma expanded_lt: "initialEnd sp md ws < length sp \<Longrightarrow> fst (expanded sp thr md ws) < length sp"
  by (simp add: expanded_def expandWindow_lt)

lemma expanded_points:
  "snd (expanded sp thr md ws) = slice sp ws (fst (expanded sp thr md ws) + 1)"
  unfolding expanded_def by (rule expandWindow_slice) simp

lemma expanded_dispersion:
  "calculateDispersion (slice sp ws (initialEnd sp md ws + 1)) \<le> thr \<Longrightarrow>
   calculateDispersion (snd (expanded sp thr md ws)) \<le> thr"
  unfolding expanded_def by (rule expandWindow_dispersion)

lemma points_fixationAt [simp]: "points (fixationAt sp thr md ws fid) = snd (expanded sp thr md ws)"
  by (simp add: fixationAt_def Let_def)

lemma fix_id_fixationAt [simp]: "fix_id (fixationAt sp thr md ws fid) = fid"
  by (simp add: fixationAt_def Let_def)

lemma slice_nth: "i < b - a \<Longrightarrow> b \<le> length xs \<Longrightarrow> slice xs a b ! i = xs ! (a + i)"
  by (simp add: slice_def)

lemma length_slice: "b \<le> length xs \<Longrightarrow> length (slice xs a b) = b - a"
  by (simp add: slice_def)

lemma set_slice: "set (slice xs a b) \<subseteq> set xs"
  unfolding slice_def by (meson set_take_subset set_drop_subset subset_trans)

lemma startTime_fixationAt:
  assumes "ws < length sp" "initialEnd sp md ws < length sp"
  shows "startTime (fixationAt sp thr md ws fid) = timestamp (sp ! ws)"
proof -
  let ?e = "fst (expanded sp thr md ws)"
  have "ws \<le> ?e" using initialEnd_ge expanded_ge by (rule order_trans)
  moreover have "?e < length sp" using assms(2) by (rule expanded_lt)
  ultimately have "slice sp ws (?e + 1) ! 0 = sp ! (ws + 0)"
    by (intro slice_nth) simp_all
  then show ?thesis
    by (simp add: fixationAt_def Let_def expanded_points)
qed

lemma idtLoop_dispersion_duration:
  "(\<forall>f\<in>set fs. md \<le> duration f \<and> calculateDispersion (points f) \<le> thr) \<Longrightarrow>
   (\<forall>f\<in>set (idtLoop sp thr md ws fid fs).
      md \<le> duration f \<and> calculateDispersion (points f) \<le> thr)"
proof (induction ws fid fs rule: idtLoop_induct2 [where sp = sp and md = md and thr = thr])
  case (stop ws fid fs)
  then show ?case by (subst idtLoop_unfold) simp
next
  case (short ws fid fs)
  then show ?case by (subst idtLoop_unfold) simp
next
  case (slide ws fid fs)
  then show ?case by (subst idtLoop_unfold) simp
next
  case (emit ws fid fs)
  have "\<forall>f\<in>set (fs @ [fixationAt sp thr md ws fid]).
      md \<le> duration f \<and> calculateDispersion (points f) \<le> thr"
    using emit.prems emit.hyps(3,4) by (simp add: expanded_dispersion)
  then have "\<forall>f\<in>set (idtLoop sp thr md (fst (expanded sp thr md ws) + 1) (fid + 1)
      (fs @ [fixationAt sp thr md ws fid])).
      md \<le> duration f \<and> calculateDispersion (points f) \<le> thr"
    by (rule emit.IH)
  with emit.hyps show ?case by (subst idtLoop_unfold) simp
next
  case (skip ws fid fs)
  then show ?case by (subst idtLoop_unfold) simp
qed

lemma idtLoop_ids:
  "map fix_id fs = [k..<fid] \<Longrightarrow> k \<le> fid \<Longrightarrow>
   map fix_id (idtLoop sp thr md ws fid fs) = [k..<k + length (idtLoop sp thr md ws fid fs)]"
proof (induction ws fid fs rule: idtLoop_induct2 [where sp = sp and md = md and thr = thr])
  case (stop ws fid fs)
  from stop.prems have "length fs = fid - k"
    by (metis length_map length_upt)
  with stop show ?case by (subst (1 2) idtLoop_unfold) simp
next
  case (short ws fid fs)
  from short.prems have "length fs = fid - k"
    by (metis length_map length_upt)
  with short show ?case by (subst (1 2) idtLoop_unfold) simp
next
  case (slide ws fid fs)
  then show ?case by (subst (1 2) idtLoop_unfold) simp
next
  case (emit ws fid fs)
  have "map fix_id (fs @ [fixationAt sp thr md ws fid]) = [k..<fid + 1]"
    using emit.prems by simp
  moreover have "k \<le> fid + 1" using emit.prems by simp
  ultimately have "map fix_id (idtLoop sp thr md (fst (expanded sp thr md ws) + 1) (fid + 1)
      (fs @ [fixationAt sp thr md ws fid])) =
    [k..<k + length (idtLoop sp thr md (fst (expanded sp thr md ws) + 1) (fid + 1)
      (fs @ [fixationAt sp thr md ws fid]))]"
    by (rule emit.IH)
  with emit.hyps show ?case by (subst (1 2) idtLoop_unfold) simp
next
  case (skip ws fid fs)
  then show ?case by (subst (1 2) idtLoop_unfold) simp
qed

lemma idtLoop_startTimes:
  assumes srt: "sorted (map timestamp sp)"
  shows "sorted (map startTime fs) \<Longrightarrow>
   (\<forall>f\<in>set fs. \<forall>j. ws \<le> j \<and> j < length sp \<longrightarrow> startTime f \<le> timestamp (sp ! j)) \<Longrightarrow>
   sorted (map startTime (idtLoop sp thr md ws fid fs))"
proof (induction ws fid fs rule: idtLoop_induct2 [where sp = sp and md = md and thr = thr])
  case (stop ws fid fs)
  then show ?case by (subst idtLoop_unfold) simp
next
  case (short ws fid fs)
  then show ?case by (subst idtLoop_unfold) simp
next
  case (slide ws fid fs)
  have "sorted (map startTime (idtLoop sp thr md (ws + 1) fid fs))"
    using slide.prems by (intro slide.IH) auto
  with slide.hyps show ?case by (subst idtLoop_unfold) simp
next
  case (emit ws fid fs)
  let ?f = "fixationAt sp thr md ws fid"
  let ?e = "fst (expanded sp thr md ws)"
  have st: "startTime ?f = timestamp (sp ! ws)"
    using emit.hyps(1,2) by (rule startTime_fixationAt)
  have le: "ws \<le> ?e" using initialEnd_ge expanded_ge by (rule order_trans)
  have mono: "timestamp (sp ! i) \<le> timestamp (sp ! j)" if "i \<le> j" "j < length sp" for i j
    using srt that by (simp add: sorted_iff_nth_mono)
  have "sorted (map startTime (fs @ [?f]))"
    using emit.prems emit.hyps(1) st by (simp add: sorted_append)
  moreover have "\<forall>f\<in>set (fs @ [?f]). \<forall>j. ?e + 1 \<le> j \<and> j < length sp \<longrightarrow>
      startTime f \<le> timestamp (sp ! j)"
    using emit.prems(2) st le mono by auto
  ultimately have "sorted (map startTime (idtLoop sp thr md (?e + 1) (fid + 1) (fs @ [?f])))"
    by (rule emit.IH)
  with emit.hyps show ?case by (subst idtLoop_unfold) simp
next
  case (skip ws fid fs)
  let ?e = "fst (expanded sp thr md ws)"
  have le: "ws \<le> ?e" using initialEnd_ge expanded_ge by (rule order_trans)
  have "sorted (map startTime (idtLoop sp thr md (?e + 1) fid fs))"
    using skip.prems le by (intro skip.IH) auto
  with skip.hyps show ?case by (subst idtLoop_unfold) simp
qed

lemma findWindowEnd_le:
  "we \<le> j \<Longrightarrow> \<not> (timestamp (sp ! j) - timestamp (sp ! ws)) * 1000 < md \<Longrightarrow>
   findWindowEnd sp ws we md \<le> j"
proof (induction sp ws we md rule: findWindowEnd.induct)
  case (1 sp ws we md)
  show ?case
  proof (cases "we < length sp \<and> (timestamp (sp ! we) - timestamp (sp ! ws)) * 1000 < md")
    case True
    with "1.prems" have "we \<noteq> j" by auto
    with "1.prems" have "we + 1 \<le> j" by simp
    with True "1.IH" "1.prems" have "findWindowEnd sp ws (we + 1) md \<le> j" by simp
    with True show ?thesis by (subst findWindowEnd.simps) simp
  next
    case False
    with "1.prems" show ?thesis by (subst findWindowEnd.simps) auto
  qed
qed

lemma expandWindow_full:
  "\<forall>k. calculateDispersion (slice sp ws k) \<le> thr \<Longrightarrow> we < length sp \<Longrightarrow>
   fst (expandWindow sp thr ws we wp) = length sp - 1"
proof (induction sp thr ws we wp rule: expandWindow.induct)
  case (1 sp thr ws we wp)
  show ?case
  proof (cases "we + 1 < length sp")
    case True
    with "1.prems" "1.IH" have "fst (expandWindow sp thr ws (we + 1) (slice sp ws (we + 2)))
        = length sp - 1"
      by simp
    with True "1.prems"(1) show ?thesis by (subst expandWindow.simps) simp
  next
    case False
    with "1.prems"(2) show ?thesis by (subst expandWindow.simps) simp
  qed
qed

lemma calculateDispersion_slice_le:
  "calculateDispersion xs \<le> t \<Longrightarrow> calculateDispersion (slice xs a b) \<le> t"
  using set_slice [of xs a b] unfolding calculateDispersion_le_iff by blast

lemma idtLoop_whole:
  assumes len: "2 \<le> length sp"
    and disp: "calculateDispersion sp \<le> thr"
    and dur: "md \<le> (timestamp (sp ! (length sp - 1)) - timestamp (sp ! 0)) * 1000"
  shows "map points (idtLoop sp thr md 0 fid []) = [sp]"
proof -
  have n: "length sp - 1 < length sp" "0 < length sp" using len by auto
  have "initialEnd sp md 0 \<le> length sp - 1"
    unfolding initialEnd_def using dur by (intro findWindowEnd_le) simp_all
  with n(1) have ie: "initialEnd sp md 0 < length sp" by linarith
  have all: "\<forall>k. calculateDispersion (slice sp 0 k) \<le> thr"
    using disp by (simp add: calculateDispersion_slice_le)
  have e: "fst (expanded sp thr md 0) = length sp - 1"
    unfolding expanded_def using all ie by (rule expandWindow_full)
  have pts: "snd (expanded sp thr md 0) = sp"
    using n by (simp add: expanded_points e slice_def)
  have d: "md \<le> duration (fixationAt sp thr md 0 fid)"
    using dur by (simp add: fixationAt_def Let_def pts)
  have e': "fst (expanded sp thr md 0) + 1 = length sp"
    using e n(1) by linarith
  have "idtLoop sp thr md 0 fid [] =
      idtLoop sp thr md (fst (expanded sp thr md 0) + 1) (fid + 1) [fixationAt sp thr md 0 fid]"
    using n(2) ie all d by (subst idtLoop_unfold) simp
  also have "\<dots> = idtLoop sp thr md (length sp) (fid + 1) [fixationAt sp thr md 0 fid]"
    by (simp only: e')
  also have "\<dots> = [fixationAt sp thr md 0 fid]"
    by (subst idtLoop_unfold) simp
  finally have "idtLoop sp thr md 0 fid [] = [fixationAt sp thr md 0 fid]" .
  then show ?thesis by (simp add: pts)
qed

section \<open>Properties of the AOI metrics\<close>

lemma foldl_add_duration: "foldl (\<lambda>sum f. sum + duration f) a fs = a + sum_list (map duration fs)"
  by (induction fs arbitrary: a) simp_all

lemma sumDurations_sum_list: "sumDurations fs = sum_list (map duration fs)"
  by (simp add: sumDurations_def foldl_add_duration)


lemma sumDurations_Nil: "sumDurations [] = 0"
  by (simp add: sumDurations_sum_list)







lemma findAOIForFixation_first:
  "i < length aois \<Longrightarrow> isPointInAOI (fix_x f) (fix_y f) (aois ! i) \<Longrightarrow>
   \<forall>k<i. \<not> isPointInAOI (fix_x f) (fix_y f) (aois ! k) \<Longrightarrow>
   findAOIForFixation f aois = Some (aois ! i)"
proof (induction aois arbitrary: i)
  case Nil
  then show ?case by simp
next
  case (Cons a aois)
  show ?case
  proof (cases i)
    case 0
    with Cons.prems(2) show ?thesis by simp
  next
    case (Suc i')
    have a: "\<not> isPointInAOI (fix_x f) (fix_y f) a"
      using Cons.prems(3) Suc by auto
    have "\<forall>k<i'. \<not> isPointInAOI (fix_x f) (fix_y f) (aois ! k)"
      using Cons.prems(3) Suc by auto
    with Cons.prems(1,2) Suc have "findAOIForFixation f aois = Some (aois ! i')"
      by (intro Cons.IH) simp_all
    with a Suc show ?thesis by simp
  qed
qed

lemma dwell_record:
  "k < length aois \<Longrightarrow>
   aoiId (calculateDwellTime fs aois ! k) = aoi_id (aois ! k) \<and>
   aoiName (calculateDwellTime fs aois ! k) = aoi_name (aois ! k) \<and>
   fixationCount (calculateDwellTime fs aois ! k) =
     length (filter (\<lambda>g. isPointInAOI (fix_x g) (fix_y g) (aois ! k)) fs) \<and>
   totalDwellTime (calculateDwellTime fs aois ! k) =
     sumDurations (filter (\<lambda>g. isPointInAOI (fix_x g) (fix_y g) (aois ! k)) fs)"
  by (simp add: calculateDwellTime_def Let_def nth_append)



lemma sumDurations_fl_exact: "sumDurations_fl (\<lambda>v. v) fs = sumDurations fs"
  by (simp add: sumDurations_fl_def sumDurations_def)

lemma calculateDwellTime_fl_exact:
  "calculateDwellTime_fl (\<lambda>v. v) fs aois = calculateDwellTime fs aois"
  by (simp add: calculateDwellTime_fl_def calculateDwellTime_def sumDurations_fl_exact)











text \<open>
  An AOI of negative width contains no point off the vertical line through \<open>bounds.x\<close>
  (a point on that line would have to be at most \<open>bounds.x + bounds.width\<close>), and one of
  negative height no point off the horizontal line through \<open>bounds.y\<close>.
\<close>

lemma off_line_outside:
  "(width (bounds aoi) < 0 \<and> px \<noteq> b_x (bounds aoi)) \<or>
   (height (bounds aoi) < 0 \<and> py \<noteq> b_y (bounds aoi)) \<Longrightarrow> \<not> isPointInAOI px py aoi"
  by (auto simp: isPointInAOI_def)

lemma entryLoop_none_inside:
  "\<forall>f\<in>set fs. \<not> isPointInAOI (fix_x f) (fix_y f) aoi \<Longrightarrow> entryLoop fs aoi c w = c"
  by (induction fs arbitrary: c w) (simp_all add: Let_def)

lemma filter_none_inside:
  "\<forall>f\<in>set fs. \<not> isPointInAOI (fix_x f) (fix_y f) aoi \<Longrightarrow>
   filter (\<lambda>f. isPointInAOI (fix_x f) (fix_y f) aoi) fs = []"
  by (induction fs) simp_all

lemma risingEdgesFrom_Nil: "risingEdgesFrom w [] = 0"
  by (simp add: risingEdgesFrom_def)

lemma risingEdgesFrom_Cons:
  "risingEdgesFrom w (b # bs) = (if b \<and> \<not> w then 1 else 0) + risingEdgesFrom b bs"
proof -
  define P where "P = (\<lambda>i. (b # bs) ! i \<and> \<not> (if i = 0 then w else (b # bs) ! (i - 1)))"
  define Q where "Q = (\<lambda>i. bs ! i \<and> \<not> (if i = 0 then b else bs ! (i - 1)))"
  have up: "[0..<length (b # bs)] = 0 # map Suc [0..<length bs]"
    by (simp add: upt_conv_Cons map_Suc_upt del: upt_Suc)
  have PQ: "P \<circ> Suc = Q"
    by (rule ext) (simp add: P_def Q_def nth_Cons')
  have P0: "P 0 \<longleftrightarrow> b \<and> \<not> w"
    by (simp add: P_def)
  have "risingEdgesFrom w (b # bs) = length (filter P (0 # map Suc [0..<length bs]))"
    unfolding risingEdgesFrom_def up P_def ..
  also have "\<dots> = (if P 0 then 1 else 0) + length (filter (P \<circ> Suc) [0..<length bs])"
    by (simp add: filter_map)
  also have "\<dots> = (if b \<and> \<not> w then 1 else 0) + length (filter Q [0..<length bs])"
    by (simp only: PQ P0)
  also have "length (filter Q [0..<length bs]) = risingEdgesFrom b bs"
    unfolding risingEdgesFrom_def Q_def ..
  finally show ?thesis .
qed

lemma risingEdges_from_outside: "risingEdges inside = risingEdgesFrom False inside"
  unfolding risingEdges_def risingEdgesFrom_def
  by (rule arg_cong [where f = length], rule filter_cong) auto

lemma entryLoop_risingEdges:
  "entryLoop fs aoi c w =
     c + risingEdgesFrom w (map (\<lambda>f. isPointInAOI (fix_x f) (fix_y f) aoi) fs)"
  by (induction fs arbitrary: c w) (simp_all add: Let_def risingEdgesFrom_Nil risingEdgesFrom_Cons)

lemma mapGet_mapSet: "mapGet (mapSet m k v) k' = (if k' = k then Some v else mapGet m k')"
  by (induction m) auto

lemma mapGet_ensured:
  "mapGet (if \<not> mapHas m k then mapSet m k v else m) k \<noteq> None"
  by (simp add: mapHas_def mapGet_mapSet)

lemma sum_mapSet:
  "sum_list (map (\<lambda>(k, v). g v) (mapSet m k v)) + (case mapGet m k of None \<Rightarrow> 0 | Some old \<Rightarrow> g old) =
   sum_list (map (\<lambda>(k, v). g v) m) + (g v :: nat)"
  by (induction m) auto

lemma rowTotal_mapSet:
  "rowTotal (mapSet row k ((case mapGet row k of None \<Rightarrow> 0 | Some c \<Rightarrow> c) + 1)) = rowTotal row + 1"
  using sum_mapSet [of "\<lambda>c. c" row k "(case mapGet row k of None \<Rightarrow> 0 | Some c \<Rightarrow> c) + 1"]
  by (simp add: rowTotal_def case_prod_unfold split: option.splits)

lemma matrixTotal_mapSet:
  "mapGet m k = Some row \<Longrightarrow> matrixTotal (mapSet m k row') + rowTotal row = matrixTotal m + rowTotal row'"
  using sum_mapSet [of rowTotal m k row'] by (simp add: matrixTotal_def)

lemma matrixTotal_new_row: "mapGet m k = None \<Longrightarrow> matrixTotal (mapSet m k []) = matrixTotal m"
  using sum_mapSet [of rowTotal m k "[]"] by (simp add: matrixTotal_def rowTotal_def)

lemma transitionLoop_step:
  "transitionLoop (f # g # fs) aois m =
     transitionLoop (g # fs) aois (countTransition m (aoiNameOf f aois) (aoiNameOf g aois))"
  by (simp add: countTransition_def Let_def split: option.splits)

lemma matrixTotal_countTransition: "matrixTotal (countTransition m a b) = matrixTotal m + 1"
proof (cases "mapGet m a")
  case None
  let ?m1 = "mapSet m a []"
  have g: "mapGet ?m1 a = Some []" by (simp add: mapGet_mapSet)
  have "matrixTotal (mapSet ?m1 a (mapSet [] b 1)) + rowTotal [] = matrixTotal ?m1 + rowTotal (mapSet [] b 1)"
    using g by (rule matrixTotal_mapSet)
  then have "matrixTotal (mapSet ?m1 a [(b, 1)]) = matrixTotal m + 1"
    using None by (simp add: matrixTotal_new_row rowTotal_def)
  then show ?thesis
    using None g by (simp add: countTransition_def mapHas_def Let_def)
next
  case (Some row)
  let ?row' = "mapSet row b ((case mapGet row b of None \<Rightarrow> 0 | Some c \<Rightarrow> c) + 1)"
  have "matrixTotal (mapSet m a ?row') + rowTotal row = matrixTotal m + rowTotal ?row'"
    using Some by (rule matrixTotal_mapSet)
  then have "matrixTotal (mapSet m a ?row') = matrixTotal m + 1"
    using rowTotal_mapSet [of row b] by simp
  then show ?thesis
    using Some by (simp add: countTransition_def mapHas_def Let_def)
qed

lemma matrixCell_countTransition:
  "matrixCell (countTransition m a b) a' b' =
     matrixCell m a' b' + (if a' = a \<and> b' = b then 1 else 0)"
proof (cases "mapGet m a")
  case None
  then show ?thesis
    by (simp add: countTransition_def mapHas_def Let_def matrixCell_def mapGet_mapSet)
next
  case (Some row)
  then show ?thesis
    by (simp add: countTransition_def mapHas_def Let_def matrixCell_def mapGet_mapSet
        split: option.splits)
qed

lemma transitionLoop_total_Cons:
  "matrixTotal (transitionLoop (f # fs) aois m) = matrixTotal m + length fs"
proof (induction fs arbitrary: f m)
  case Nil
  then show ?case by simp
next
  case (Cons g fs)
  show ?case
    unfolding transitionLoop_step by (simp add: Cons.IH matrixTotal_countTransition)
qed

lemma transitionLoop_total:
  "matrixTotal (transitionLoop fs aois m) = matrixTotal m + (length fs - 1)"
  by (cases fs) (simp_all add: transitionLoop_total_Cons)

lemma transitionLoop_cell_Cons:
  "matrixCell (transitionLoop (f # fs) aois m) a b =
     matrixCell m a b + count_list (zip (labels (f # fs) aois) (labels fs aois)) (a, b)"
proof (induction fs arbitrary: f m)
  case Nil
  then show ?case by (simp add: labels_def)
next
  case (Cons g fs)
  show ?case
    unfolding transitionLoop_step
    by (simp add: Cons.IH matrixCell_countTransition labels_def)
qed

lemma transitionLoop_cell:
  "matrixCell (transitionLoop fs aois m) a b =
     matrixCell m a b + count_list (zip (labels fs aois) (tl (labels fs aois))) (a, b)"
proof (cases fs)
  case Nil
  then show ?thesis by (simp add: labels_def)
next
  case (Cons f fs')
  have "tl (labels (f # fs') aois) = labels fs' aois"
    by (simp add: labels_def)
  with Cons show ?thesis
    by (simp add: transitionLoop_cell_Cons)
qed

section \<open>Properties of the labels and of the export\<close>

lemma sequenceLoop_remdups_adj:
  "sequenceLoop fs aois acc lastAOI =
     acc @ (case lastAOI of
              None \<Rightarrow> remdups_adj (labels fs aois)
            | Some l \<Rightarrow> tl (remdups_adj (l # labels fs aois)))"
proof (induction fs arbitrary: acc lastAOI)
  case Nil
  then show ?case by (simp add: labels_def split: option.splits)
next
  case (Cons f fs)
  show ?case
  proof (cases lastAOI)
    case None
    then show ?thesis
      by (simp add: Cons.IH Let_def labels_def remdups_adj_Cons split: list.splits)
  next
    case (Some l)
    then show ?thesis
      by (simp add: Cons.IH Let_def labels_def remdups_adj_Cons split: list.splits)
  qed
qed

lemma aoiSequence_collapsed:
  "aoiSequence (calculateScanpathMetrics fs aois) =
     remdups_adj (labels (sort_key startTime fs) aois)"
proof (cases "fs = []")
  case True
  then show ?thesis by (simp add: calculateScanpathMetrics_def scanpathFromSorted_def emptyScanpath_def labels_def)
next
  case False
  then show ?thesis
    by (simp add: calculateScanpathMetrics_def scanpathFromSorted_def emptyScanpath_def Let_def sequenceLoop_remdups_adj)
qed

lemma transitionMatrix_cells:
  "matrixCell (aoiTransitionMatrix (calculateScanpathMetrics fs aois)) a b =
     count_list (zip (labels (sort_key startTime fs) aois)
                     (tl (labels (sort_key startTime fs) aois))) (a, b)"
proof (cases "fs = []")
  case True
  then show ?thesis by (simp add: calculateScanpathMetrics_def scanpathFromSorted_def emptyScanpath_def labels_def matrixCell_def)
next
  case False
  have "matrixCell [] a b = 0" by (simp add: matrixCell_def)
  with False show ?thesis
    by (simp add: calculateScanpathMetrics_def scanpathFromSorted_def emptyScanpath_def Let_def transitionLoop_cell)
qed

lemma findAOIForFixation_find:
  "findAOIForFixation f aois = find (\<lambda>a. isPointInAOI (fix_x f) (fix_y f) a) aois"
  by (induction aois) simp_all

lemma find_outside:
  "containingCount f aois = 0 \<Longrightarrow> find (\<lambda>a. isPointInAOI (fix_x f) (fix_y f) a) aois = None"
  by (induction aois) (simp_all add: containingCount_def split: if_splits)

lemma last_fixationCells:
  "last (fixationCells toFixed numStr aois f) =
     (case find (\<lambda>a. isPointInAOI (fix_x f) (fix_y f) a) aois of
        Some a \<Rightarrow> aoi_name a | None \<Rightarrow> ''outside'')"
  by (simp add: fixationCells_def Let_def)

lemma last_calculateDwellTime:
  "aoiId (last (calculateDwellTime fs aois)) = ''__outside__'' \<and>
   aoiName (last (calculateDwellTime fs aois)) = ''Outside AOIs''"
  by (simp add: calculateDwellTime_def Let_def)

lemma detect_four_points:
  "detectFixationsIDT fourPoints 1 100 =
     [\<lparr>fix_id = 1, startTime = 0, endTime = 1, duration = 1000, fix_x = 0, fix_y = 0,
       pointCount = 2, points = [gazeAt 0 0 0, gazeAt 1 0 0]\<rparr>,
      \<lparr>fix_id = 2, startTime = 2, endTime = 3, duration = 1000, fix_x = 5, fix_y = 0,
       pointCount = 2, points = [gazeAt 2 5 0, gazeAt 3 5 0]\<rparr>]"
  by (simp add: detectFixationsIDT_def idtLoop.simps findWindowEnd.simps expandWindow.simps
      slice_def calculateDispersion_def pointDist_def calculateCentroid_def gazeAt_def Let_def
      fourPoints_def)

section \<open>Properties of the store operations\<close>

lemma newArray_old: "a < length arrays \<Longrightarrow> fst (newArray arrays xs) ! a = arrays ! a"
  by (simp add: newArray_def nth_append)

lemma newArray_new: "fst (newArray arrays xs) ! snd (newArray arrays xs) = xs"
  by (simp add: newArray_def)

lemma newArray_length: "length (fst (newArray arrays xs)) = Suc (length arrays)"
  by (simp add: newArray_def)

lemma newArray_addr: "snd (newArray arrays xs) = length arrays"
  by (simp add: newArray_def)

lemma sortInPlace_other: "a \<noteq> b \<Longrightarrow> sortInPlace key arrays b ! a = arrays ! a"
  by (simp add: sortInPlace_def)

lemma sortInPlace_length: "length (sortInPlace key arrays b) = length arrays"
  by (simp add: sortInPlace_def)

lemma sortInPlace_same:
  "b < length arrays \<Longrightarrow> sortInPlace key arrays b ! b = sort_key key (arrays ! b)"
  by (simp add: sortInPlace_def)

lemma copy_sorted_old:
  "a < length arrays \<Longrightarrow>
   sortInPlace key (fst (newArray arrays xs)) (snd (newArray arrays xs)) ! a = arrays ! a"
  by (simp add: sortInPlace_def newArray_def nth_append)

lemma copy_sorted_new:
  "sortInPlace key (fst (newArray arrays xs)) (snd (newArray arrays xs)) ! length arrays =
     sort_key key xs"
  by (simp add: sortInPlace_def newArray_def nth_append)

lemma copy_sorted_length:
  "length (sortInPlace key (fst (newArray arrays xs)) (snd (newArray arrays xs))) =
     Suc (length arrays)"
  by (simp add: sortInPlace_def newArray_def)

text \<open>What \<^const>\<open>detectFixationsIDT_st\<close> does to the store.\<close>

lemma detect_st:
  "snd (detectFixationsIDT_st s g thr md) = length (fixationArrays s) \<and>
   fixationArrays (fst (detectFixationsIDT_st s g thr md)) =
     fixationArrays s @ [detectFixationsIDT (gazeArrays s ! g) thr md] \<and>
   aoiArrays (fst (detectFixationsIDT_st s g thr md)) = aoiArrays s \<and>
   take (length (gazeArrays s)) (gazeArrays (fst (detectFixationsIDT_st s g thr md))) =
     gazeArrays s"
  by (simp add: detectFixationsIDT_st_def detectFixationsIDT_def Let_def newArray_def
      sortInPlace_def)

lemma scanpath_st:
  "f < length (fixationArrays s) \<Longrightarrow>
   snd (calculateScanpathMetrics_st s f a) =
     calculateScanpathMetrics (fixationArrays s ! f) (aoiArrays s ! a) \<and>
   take (length (fixationArrays s)) (fixationArrays (fst (calculateScanpathMetrics_st s f a))) =
     fixationArrays s \<and>
   aoiArrays (fst (calculateScanpathMetrics_st s f a)) = aoiArrays s \<and>
   gazeArrays (fst (calculateScanpathMetrics_st s f a)) = gazeArrays s"
  by (simp add: calculateScanpathMetrics_st_def calculateScanpathMetrics_def Let_def
      newArray_def sortInPlace_def)

lemma firstFixation_st:
  "f < length (fixationArrays s) \<Longrightarrow>
   snd (calculateFirstFixation_st s f a v) =
     calculateFirstFixation (fixationArrays s ! f) (aoiArrays s ! a) v \<and>
   take (length (fixationArrays s)) (fixationArrays (fst (calculateFirstFixation_st s f a v))) =
     fixationArrays s \<and>
   aoiArrays (fst (calculateFirstFixation_st s f a v)) = aoiArrays s \<and>
   gazeArrays (fst (calculateFirstFixation_st s f a v)) = gazeArrays s"
  by (simp add: calculateFirstFixation_st_def calculateFirstFixation_def Let_def
      newArray_def sortInPlace_def)

lemma take_eq_nth:
  assumes "take n xs = ys" and "i < length ys"
  shows "xs ! i = ys ! i"
proof -
  from assms have "i < n" by auto
  then have "take n xs ! i = xs ! i" by simp
  with assms(1) show ?thesis by simp
qed

lemma take_eq_length:
  assumes "take (length ys) xs = ys"
  shows "length ys \<le> length xs"
proof -
  have "length (take (length ys) xs) = length ys"
    using assms by simp
  then show ?thesis by simp
qed

lemma analyzeGazeData_st_effect:
  "take (length (gazeArrays s)) (gazeArrays (fst (analyzeGazeData_st s g a options))) =
     gazeArrays s \<and>
   aoiArrays (fst (analyzeGazeData_st s g a options)) = aoiArrays s \<and>
   take (length (fixationArrays s))
     (fixationArrays (fst (analyzeGazeData_st s g a options))) = fixationArrays s \<and>
   (\<exists>r. snd (analyzeGazeData_st s g a options) = Inr r \<and>
      analyzeGazeData (gazeArrays s ! g) (aoiArrays s ! a) options =
        Inr (readResult (fst (analyzeGazeData_st s g a options)) r))"
proof -
  define thr where "thr = (case opt_dispersionThreshold options of
      Some v \<Rightarrow> v | None \<Rightarrow> DEFAULT_DISPERSION_THRESHOLD)"
  define md where "md = (case opt_minFixationDuration options of
      Some v \<Rightarrow> v | None \<Rightarrow> DEFAULT_MIN_FIXATION_DURATION)"
  define v where "v = (case opt_videoStartTime options of Some v \<Rightarrow> v | None \<Rightarrow> 0)"
  define s1 where "s1 = fst (detectFixationsIDT_st s g thr md)"
  define f where "f = snd (detectFixationsIDT_st s g thr md)"
  define s2 where "s2 = fst (calculateScanpathMetrics_st s1 f a)"
  define s3 where "s3 = fst (calculateFirstFixation_st s2 f a v)"
  define D where "D = detectFixationsIDT (gazeArrays s ! g) thr md"
  note d = detect_st [of s g thr md, folded s1_def f_def D_def]
  from d have f: "f = length (fixationArrays s)" and fa1: "fixationArrays s1 = fixationArrays s @ [D]"
    and aa1: "aoiArrays s1 = aoiArrays s"
    and ga1: "take (length (gazeArrays s)) (gazeArrays s1) = gazeArrays s"
    by simp_all
  have f1: "f < length (fixationArrays s1)" and D1: "fixationArrays s1 ! f = D"
    by (simp_all add: fa1 f)
  note sc = scanpath_st [OF f1, of a, folded s2_def]
  from sc have sp: "snd (calculateScanpathMetrics_st s1 f a) =
      calculateScanpathMetrics D (aoiArrays s ! a)"
    and fa2: "take (length (fixationArrays s1)) (fixationArrays s2) = fixationArrays s1"
    and aa2: "aoiArrays s2 = aoiArrays s" and ga2: "gazeArrays s2 = gazeArrays s1"
    by (simp_all add: D1 aa1)
  have f2: "f < length (fixationArrays s2)"
    using take_eq_length [OF fa2] f1 by simp
  have D2: "fixationArrays s2 ! f = D"
    using take_eq_nth [OF fa2 f1] D1 by simp
  note ff = firstFixation_st [OF f2, of a v, folded s3_def]
  from ff have fm: "snd (calculateFirstFixation_st s2 f a v) =
      calculateFirstFixation D (aoiArrays s ! a) v"
    and fa3: "take (length (fixationArrays s2)) (fixationArrays s3) = fixationArrays s2"
    and aa3: "aoiArrays s3 = aoiArrays s" and ga3: "gazeArrays s3 = gazeArrays s1"
    by (simp_all add: D2 aa2 ga2)
  have D3: "fixationArrays s3 ! f = D"
    using take_eq_nth [OF fa3 f2] D2 by simp
  have old: "take (length (fixationArrays s)) (fixationArrays s3) = fixationArrays s"
  proof (rule nth_equalityI)
    have "length (fixationArrays s) \<le> length (fixationArrays s3)"
      using take_eq_length [OF fa3] f2 f by simp
    then show "length (take (length (fixationArrays s)) (fixationArrays s3)) =
        length (fixationArrays s)"
      by simp
  next
    fix i
    assume "i < length (take (length (fixationArrays s)) (fixationArrays s3))"
    then have i: "i < length (fixationArrays s)" by simp
    then have "fixationArrays s3 ! i = fixationArrays s2 ! i"
      using take_eq_nth [OF fa3, of i] f2 f by simp
    also have "\<dots> = fixationArrays s1 ! i"
      using take_eq_nth [OF fa2, of i] i f1 f by simp
    also have "\<dots> = fixationArrays s ! i"
      using i by (simp add: fa1 nth_append)
    finally show "take (length (fixationArrays s)) (fixationArrays s3) ! i = fixationArrays s ! i"
      using i by simp
  qed
  have out: "analyzeGazeData_st s g a options =
      (s3, Inr \<lparr>res_fixations = f,
        res_dwellTimeStats = calculateDwellTime D (aoiArrays s ! a),
        res_scanpathMetrics = calculateScanpathMetrics D (aoiArrays s ! a),
        res_firstFixationMetrics = calculateFirstFixation D (aoiArrays s ! a) v,
        res_parameters = \<lparr>par_dispersionThreshold = thr, par_minFixationDuration = md\<rparr>\<rparr>)"
    unfolding analyzeGazeData_st_def Let_def
    unfolding thr_def [symmetric] md_def [symmetric] v_def [symmetric]
    unfolding s1_def [symmetric] f_def [symmetric]
    unfolding s2_def [symmetric]
    unfolding s3_def [symmetric]
    by (simp add: sp fm calculateDwellTime_st_def D1 aa1)
  have pure: "analyzeGazeData (gazeArrays s ! g) (aoiArrays s ! a) options =
      Inr \<lparr>res_fixations = D,
        res_dwellTimeStats = calculateDwellTime D (aoiArrays s ! a),
        res_scanpathMetrics = calculateScanpathMetrics D (aoiArrays s ! a),
        res_firstFixationMetrics = calculateFirstFixation D (aoiArrays s ! a) v,
        res_parameters = \<lparr>par_dispersionThreshold = thr, par_minFixationDuration = md\<rparr>\<rparr>"
    by (simp add: analyzeGazeData_def Let_def thr_def md_def v_def D_def)
  show ?thesis
    unfolding out pure by (simp add: ga3 ga1 aa3 old readResult_def D3)
qed

lemma analyzeGazeData_st_gazeArrays:
  "gazeArrays (fst (analyzeGazeData_st s g a options)) =
     gazeArrays (fst (detectFixationsIDT_st s g
       (case opt_dispersionThreshold options of
          Some v \<Rightarrow> v | None \<Rightarrow> DEFAULT_DISPERSION_THRESHOLD)
       (case opt_minFixationDuration options of
          Some v \<Rightarrow> v | None \<Rightarrow> DEFAULT_MIN_FIXATION_DURATION)))"
  by (simp add: analyzeGazeData_st_def Let_def calculateScanpathMetrics_st_def
      calculateFirstFixation_st_def)

lemma sorted_timestamps: "sorted (map timestamp (sort_key timestamp gazePoints))"
  by (rule sorted_sort_key)

lemma detect_two_points:
  "detectFixationsIDT [gazeAt 0 0 0, gazeAt 1 1 0] 1 100 =
     [\<lparr>fix_id = 1, startTime = 0, endTime = 1, duration = 1000, fix_x = 1 / 2, fix_y = 0,
       pointCount = 2, points = [gazeAt 0 0 0, gazeAt 1 1 0]\<rparr>]"
  by (simp add: detectFixationsIDT_def idtLoop.simps findWindowEnd.simps expandWindow.simps
      slice_def calculateDispersion_def pointDist_def calculateCentroid_def gazeAt_def Let_def)

lemma dispersion_two_points: "calculateDispersion [gazeAt 0 0 0, gazeAt 1 1 0] = 1"
  by (simp add: calculateDispersion_def pointDist_def gazeAt_def)

section \<open>Claims about the fixation detector\<close>

text \<open>
  C1. Every fixation that \<^verbatim>\<open>detectFixationsIDT\<close> returns has a duration of at least the minimum
  duration, and the dispersion of its points, which is the exact maximum of the Euclidean
  distance over all pairs of them, is at most the dispersion threshold. The threshold is
  inclusive: when the dispersion of the whole sorted input equals the threshold and its time
  span reaches the minimum duration, the input is returned as one fixation.
\<close>

theorem detectFixationsIDT_thresholds:
  "(\<forall>f\<in>set (detectFixationsIDT gazePoints thr md).
      md \<le> duration f \<and>
      calculateDispersion (points f) \<le> thr \<and>
      calculateDispersion (points f) = maxPairwiseDistance (points f) \<and>
      (\<forall>p\<in>set (points f). \<forall>q\<in>set (points f). pointDist p q \<le> thr)) \<and>
   (2 \<le> length gazePoints \<and>
    calculateDispersion (sort_key timestamp gazePoints) = thr \<and>
    md \<le> (timestamp (sort_key timestamp gazePoints ! (length gazePoints - 1))
            - timestamp (sort_key timestamp gazePoints ! 0)) * 1000 \<longrightarrow>
    map points (detectFixationsIDT gazePoints thr md) = [sort_key timestamp gazePoints])"
proof -
  let ?sp = "sort_key timestamp gazePoints"
  have "\<forall>f\<in>set (idtLoop ?sp thr md 0 1 []).
      md \<le> duration f \<and> calculateDispersion (points f) \<le> thr"
    by (rule idtLoop_dispersion_duration) simp
  then have *: "md \<le> duration f \<and> calculateDispersion (points f) \<le> thr"
    if "f \<in> set (detectFixationsIDT gazePoints thr md)" for f
    using that by (auto simp: detectFixationsIDT_def split: if_splits)
  have part1: "\<forall>f\<in>set (detectFixationsIDT gazePoints thr md).
      md \<le> duration f \<and>
      calculateDispersion (points f) \<le> thr \<and>
      calculateDispersion (points f) = maxPairwiseDistance (points f) \<and>
      (\<forall>p\<in>set (points f). \<forall>q\<in>set (points f). pointDist p q \<le> thr)"
  proof
    fix f
    assume "f \<in> set (detectFixationsIDT gazePoints thr md)"
    then have f: "md \<le> duration f" "calculateDispersion (points f) \<le> thr"
      using * by simp_all
    from f(2) have "\<forall>p\<in>set (points f). \<forall>q\<in>set (points f). pointDist p q \<le> thr"
      by (simp add: calculateDispersion_le_iff)
    with f calculateDispersion_eq_max [of "points f"]
    show "md \<le> duration f \<and>
      calculateDispersion (points f) \<le> thr \<and>
      calculateDispersion (points f) = maxPairwiseDistance (points f) \<and>
      (\<forall>p\<in>set (points f). \<forall>q\<in>set (points f). pointDist p q \<le> thr)"
      by blast
  qed
  have part2: "map points (detectFixationsIDT gazePoints thr md) = [?sp]"
    if a: "2 \<le> length gazePoints \<and> calculateDispersion ?sp = thr \<and>
      md \<le> (timestamp (?sp ! (length gazePoints - 1)) - timestamp (?sp ! 0)) * 1000"
  proof -
    have "map points (idtLoop ?sp thr md 0 1 []) = [?sp]"
      using a by (intro idtLoop_whole) simp_all
    with a show ?thesis
      by (simp add: detectFixationsIDT_def)
  qed
  from part1 part2 show ?thesis by blast
qed

theorem detectFixationsIDT_thresholds_witness:
  "detectFixationsIDT [gazeAt 0 0 0, gazeAt 1 1 0] 1 100 \<noteq> [] \<and>
   100 \<le> duration (hd (detectFixationsIDT [gazeAt 0 0 0, gazeAt 1 1 0] 1 100)) \<and>
   calculateDispersion (points (hd (detectFixationsIDT [gazeAt 0 0 0, gazeAt 1 1 0] 1 100)))
     \<le> 1 \<and>
   pointDist (gazeAt 0 0 0) (gazeAt 1 1 0) \<le> 1 \<and>
   calculateDispersion (sort_key timestamp [gazeAt 0 0 0, gazeAt 1 1 0]) = 1 \<and>
   map points (detectFixationsIDT [gazeAt 0 0 0, gazeAt 1 1 0] 1 100) =
     [[gazeAt 0 0 0, gazeAt 1 1 0]]"
proof -
  have srt: "sort_key timestamp [gazeAt 0 0 0, gazeAt 1 1 0] = [gazeAt 0 0 0, gazeAt 1 1 0]"
    by (simp add: gazeAt_def)
  show ?thesis
    using detectFixationsIDT_thresholds [of "[gazeAt 0 0 0, gazeAt 1 1 0]" 1 100]
    unfolding srt detect_two_points by (simp add: dispersion_two_points)
qed

text \<open>
  C2. The fixations that \<^verbatim>\<open>detectFixationsIDT\<close> returns carry the ids 1, 2, 3, ... in the order
  of the list, so the ids are strictly increasing, and their start times are non-decreasing
  along the list.
\<close>

theorem detectFixationsIDT_ids_and_order:
  "map fix_id (detectFixationsIDT gazePoints thr md) =
     [1..<1 + length (detectFixationsIDT gazePoints thr md)] \<and>
   sorted_wrt (<) (map fix_id (detectFixationsIDT gazePoints thr md)) \<and>
   sorted (map startTime (detectFixationsIDT gazePoints thr md))"
proof -
  let ?sp = "sort_key timestamp gazePoints"
  have ids: "map fix_id (detectFixationsIDT gazePoints thr md) =
      [1..<1 + length (detectFixationsIDT gazePoints thr md)]"
  proof (cases "length gazePoints < 2")
    case True
    then show ?thesis by (simp add: detectFixationsIDT_def)
  next
    case False
    have "map fix_id (idtLoop ?sp thr md 0 1 []) =
        [1..<1 + length (idtLoop ?sp thr md 0 1 [])]"
      by (rule idtLoop_ids) simp_all
    with False show ?thesis by (simp add: detectFixationsIDT_def)
  qed
  have "sorted_wrt (<) [1..<1 + length (detectFixationsIDT gazePoints thr md)]"
    by (rule sorted_wrt_upt)
  then have strict: "sorted_wrt (<) (map fix_id (detectFixationsIDT gazePoints thr md))"
    by (simp only: ids [symmetric])
  have times: "sorted (map startTime (detectFixationsIDT gazePoints thr md))"
  proof (cases "length gazePoints < 2")
    case True
    then show ?thesis by (simp add: detectFixationsIDT_def)
  next
    case False
    have "sorted (map startTime (idtLoop ?sp thr md 0 1 []))"
      using sorted_timestamps by (rule idtLoop_startTimes) simp_all
    with False show ?thesis by (simp add: detectFixationsIDT_def)
  qed
  from ids strict times show ?thesis by blast
qed

section \<open>Claims about the AOI metrics\<close>




text \<open>
  C4. When two AOIs of the list, at positions \<open>i < j\<close>, both contain the centroid of a fixation
  and no AOI before position \<open>i\<close> contains it, \<^verbatim>\<open>findAOIForFixation\<close> returns the AOI at position
  \<open>i\<close>: the first match in list order wins. \<^verbatim>\<open>calculateDwellTime\<close> credits both: on that
  fixation alone the records at positions \<open>i\<close> and \<open>j\<close> have a \<^verbatim>\<open>fixationCount\<close> of 1, and
  adding the fixation to any fixation list raises both counts by 1. The records carry the
  names of their AOIs, and each is computed from its AOI alone: the \<^verbatim>\<open>fixationCount\<close> and the
  \<^verbatim>\<open>totalDwellTime\<close> of the record at a position are the number and the summed duration of the
  fixations whose centroid lies in the AOI at that position.
\<close>

theorem findAOI_first_dwell_both:
  "i < j \<and> j < length aois \<and>
   isPointInAOI (fix_x f) (fix_y f) (aois ! i) \<and>
   isPointInAOI (fix_x f) (fix_y f) (aois ! j) \<and>
   (\<forall>k<i. \<not> isPointInAOI (fix_x f) (fix_y f) (aois ! k)) \<longrightarrow>
     findAOIForFixation f aois = Some (aois ! i) \<and>
     fixationCount (calculateDwellTime [f] aois ! i) = 1 \<and>
     fixationCount (calculateDwellTime [f] aois ! j) = 1 \<and>
     fixationCount (calculateDwellTime (before @ f # after) aois ! i) =
       fixationCount (calculateDwellTime (before @ after) aois ! i) + 1 \<and>
     fixationCount (calculateDwellTime (before @ f # after) aois ! j) =
       fixationCount (calculateDwellTime (before @ after) aois ! j) + 1 \<and>
     aoiName (calculateDwellTime fs aois ! i) = aoi_name (aois ! i) \<and>
     aoiName (calculateDwellTime fs aois ! j) = aoi_name (aois ! j) \<and>
     (\<forall>k<length aois.
        fixationCount (calculateDwellTime fs aois ! k) =
          length (filter (\<lambda>g. isPointInAOI (fix_x g) (fix_y g) (aois ! k)) fs) \<and>
        totalDwellTime (calculateDwellTime fs aois ! k) =
          sumDurations (filter (\<lambda>g. isPointInAOI (fix_x g) (fix_y g) (aois ! k)) fs))"
proof
  assume a: "i < j \<and> j < length aois \<and>
   isPointInAOI (fix_x f) (fix_y f) (aois ! i) \<and>
   isPointInAOI (fix_x f) (fix_y f) (aois ! j) \<and>
   (\<forall>k<i. \<not> isPointInAOI (fix_x f) (fix_y f) (aois ! k))"
  then have i: "i < length aois" and j: "j < length aois"
    and fi: "isPointInAOI (fix_x f) (fix_y f) (aois ! i)"
    and fj: "isPointInAOI (fix_x f) (fix_y f) (aois ! j)"
    and first: "\<forall>k<i. \<not> isPointInAOI (fix_x f) (fix_y f) (aois ! k)"
    by simp_all
  have find: "findAOIForFixation f aois = Some (aois ! i)"
    using i fi first by (rule findAOIForFixation_first)
  have counts: "fixationCount (calculateDwellTime [f] aois ! i) = 1"
    "fixationCount (calculateDwellTime [f] aois ! j) = 1"
    "fixationCount (calculateDwellTime (before @ f # after) aois ! i) =
       fixationCount (calculateDwellTime (before @ after) aois ! i) + 1"
    "fixationCount (calculateDwellTime (before @ f # after) aois ! j) =
       fixationCount (calculateDwellTime (before @ after) aois ! j) + 1"
    using i j fi fj by (simp_all add: dwell_record)
  have names: "aoiName (calculateDwellTime fs aois ! i) = aoi_name (aois ! i)"
    "aoiName (calculateDwellTime fs aois ! j) = aoi_name (aois ! j)"
    using i j by (simp_all add: dwell_record)
  have all: "\<forall>k<length aois.
        fixationCount (calculateDwellTime fs aois ! k) =
          length (filter (\<lambda>g. isPointInAOI (fix_x g) (fix_y g) (aois ! k)) fs) \<and>
        totalDwellTime (calculateDwellTime fs aois ! k) =
          sumDurations (filter (\<lambda>g. isPointInAOI (fix_x g) (fix_y g) (aois ! k)) fs)"
    by (simp add: dwell_record)
  from find counts names all
  show "findAOIForFixation f aois = Some (aois ! i) \<and>
     fixationCount (calculateDwellTime [f] aois ! i) = 1 \<and>
     fixationCount (calculateDwellTime [f] aois ! j) = 1 \<and>
     fixationCount (calculateDwellTime (before @ f # after) aois ! i) =
       fixationCount (calculateDwellTime (before @ after) aois ! i) + 1 \<and>
     fixationCount (calculateDwellTime (before @ f # after) aois ! j) =
       fixationCount (calculateDwellTime (before @ after) aois ! j) + 1 \<and>
     aoiName (calculateDwellTime fs aois ! i) = aoi_name (aois ! i) \<and>
     aoiName (calculateDwellTime fs aois ! j) = aoi_name (aois ! j) \<and>
     (\<forall>k<length aois.
        fixationCount (calculateDwellTime fs aois ! k) =
          length (filter (\<lambda>g. isPointInAOI (fix_x g) (fix_y g) (aois ! k)) fs) \<and>
        totalDwellTime (calculateDwellTime fs aois ! k) =
          sumDurations (filter (\<lambda>g. isPointInAOI (fix_x g) (fix_y g) (aois ! k)) fs))"
    by blast
qed

theorem findAOI_first_dwell_both_witness:
  "\<not> isPointInAOI (fix_x (fixationAtPoint 10 0 100 (1 / 2) (1 / 2)))
     (fix_y (fixationAtPoint 10 0 100 (1 / 2) (1 / 2))) (rectAOI ''X'' 5 5 1 1) \<and>
   isPointInAOI (fix_x (fixationAtPoint 10 0 100 (1 / 2) (1 / 2)))
     (fix_y (fixationAtPoint 10 0 100 (1 / 2) (1 / 2))) (rectAOI ''A'' 0 0 1 1) \<and>
   isPointInAOI (fix_x (fixationAtPoint 10 0 100 (1 / 2) (1 / 2)))
     (fix_y (fixationAtPoint 10 0 100 (1 / 2) (1 / 2))) (rectAOI ''B'' 0 0 2 2) \<and>
   findAOIForFixation (fixationAtPoint 10 0 100 (1 / 2) (1 / 2))
     [rectAOI ''X'' 5 5 1 1, rectAOI ''A'' 0 0 1 1, rectAOI ''B'' 0 0 2 2] =
     Some (rectAOI ''A'' 0 0 1 1) \<and>
   map fixationCount (calculateDwellTime
     [fixationAtPoint 20 1 100 (3 / 2) (3 / 2), fixationAtPoint 10 0 100 (1 / 2) (1 / 2)]
     [rectAOI ''X'' 5 5 1 1, rectAOI ''A'' 0 0 1 1, rectAOI ''B'' 0 0 2 2]) = [0, 1, 2, 0] \<and>
   map fixationCount (calculateDwellTime [fixationAtPoint 20 1 100 (3 / 2) (3 / 2)]
     [rectAOI ''X'' 5 5 1 1, rectAOI ''A'' 0 0 1 1, rectAOI ''B'' 0 0 2 2]) = [0, 0, 1, 0]"
proof -
  let ?f = "fixationAtPoint 10 0 100 (1 / 2) (1 / 2)"
  let ?g = "fixationAtPoint 20 1 100 (3 / 2) (3 / 2)"
  let ?aois = "[rectAOI ''X'' 5 5 1 1, rectAOI ''A'' 0 0 1 1, rectAOI ''B'' 0 0 2 2]"
  have x: "\<not> isPointInAOI (fix_x ?f) (fix_y ?f) (rectAOI ''X'' 5 5 1 1)"
    and a: "isPointInAOI (fix_x ?f) (fix_y ?f) (rectAOI ''A'' 0 0 1 1)"
    and b: "isPointInAOI (fix_x ?f) (fix_y ?f) (rectAOI ''B'' 0 0 2 2)"
    by (simp_all add: fixationAtPoint_def rectAOI_def isPointInAOI_def)
  have c: "map fixationCount (calculateDwellTime [?g, ?f] ?aois) = [0, 1, 2, 0]"
    "map fixationCount (calculateDwellTime [?g] ?aois) = [0, 0, 1, 0]"
    by (simp_all add: calculateDwellTime_def Let_def fixationAtPoint_def rectAOI_def
        isPointInAOI_def)
  have first: "\<forall>k<Suc 0. \<not> isPointInAOI (fix_x ?f) (fix_y ?f) (?aois ! k)"
    using x by simp
  have "Suc 0 < 2 \<and> 2 < length ?aois \<and>
      isPointInAOI (fix_x ?f) (fix_y ?f) (?aois ! Suc 0) \<and>
      isPointInAOI (fix_x ?f) (fix_y ?f) (?aois ! 2) \<and>
      (\<forall>k<Suc 0. \<not> isPointInAOI (fix_x ?f) (fix_y ?f) (?aois ! k))"
    using a b first by simp
  with findAOI_first_dwell_both [of "Suc 0" 2 ?aois ?f "[?g]" "[]" "[]"]
  have "findAOIForFixation ?f ?aois = Some (?aois ! Suc 0)"
    by blast
  then have "findAOIForFixation ?f ?aois = Some (rectAOI ''A'' 0 0 1 1)"
    by simp
  with x a b c show ?thesis by blast
qed

text \<open>
  C5, as stated, fails: the comparisons of \<^verbatim>\<open>isPointInAOI\<close> are inclusive, so an AOI of width 0
  and height 0 at the origin matches the point at the origin.
\<close>

theorem degenerate_aoi_counterexample:
  "width (bounds (rectAOI ''Z'' 0 0 0 0)) = 0 \<and> height (bounds (rectAOI ''Z'' 0 0 0 0)) = 0 \<and>
   isPointInAOI 0 0 (rectAOI ''Z'' 0 0 0 0)"
  by (simp add: rectAOI_def isPointInAOI_def)

text \<open>
  C5, amended. An AOI of width 0 matches exactly the points of its vertical segment
  (\<open>x = bounds.x\<close> and \<open>bounds.y \<le> y \<le> bounds.y + bounds.height\<close>), and an AOI of height 0
  exactly the points of its horizontal segment: it matches no point off the segment, and it
  does match the points on it.
\<close>

theorem degenerate_aoi_matches_segment:
  "(width (bounds aoi) = 0 \<longrightarrow>
      (isPointInAOI px py aoi \<longleftrightarrow>
         px = b_x (bounds aoi) \<and> b_y (bounds aoi) \<le> py \<and>
         py \<le> b_y (bounds aoi) + height (bounds aoi))) \<and>
   (height (bounds aoi) = 0 \<longrightarrow>
      (isPointInAOI px py aoi \<longleftrightarrow>
         py = b_y (bounds aoi) \<and> b_x (bounds aoi) \<le> px \<and>
         px \<le> b_x (bounds aoi) + width (bounds aoi)))"
  by (auto simp: isPointInAOI_def)

theorem degenerate_aoi_matches_segment_witness:
  "width (bounds (rectAOI ''Z'' 2 3 0 4)) = 0 \<and>
   isPointInAOI 2 5 (rectAOI ''Z'' 2 3 0 4) \<and>
   \<not> isPointInAOI (21 / 10) 5 (rectAOI ''Z'' 2 3 0 4) \<and>
   height (bounds (rectAOI ''Z'' 2 3 4 0)) = 0 \<and>
   isPointInAOI 5 3 (rectAOI ''Z'' 2 3 4 0) \<and>
   \<not> isPointInAOI 5 (31 / 10) (rectAOI ''Z'' 2 3 4 0)"
  using degenerate_aoi_matches_segment [of "rectAOI ''Z'' 2 3 0 4" 2 5]
    degenerate_aoi_matches_segment [of "rectAOI ''Z'' 2 3 0 4" "21 / 10" 5]
    degenerate_aoi_matches_segment [of "rectAOI ''Z'' 2 3 4 0" 5 3]
    degenerate_aoi_matches_segment [of "rectAOI ''Z'' 2 3 4 0" 5 "31 / 10"]
  by (simp add: rectAOI_def)

text \<open>
  C6, as stated, fails: \<^verbatim>\<open>analyzeGazeData\<close> has no validation and no failure path. Called with
  an AOI of width \<open>-1\<close> it returns a result.
\<close>

theorem analyzeGazeData_negative_aoi_counterexample:
  "width (bounds (rectAOI ''N'' 0 0 (- 1) 1)) < 0 \<and>
   analyzeGazeData [] [rectAOI ''N'' 0 0 (- 1) 1] noOptions =
     Inr \<lparr>res_fixations = [],
          res_dwellTimeStats =
            [\<lparr>aoiId = ''N'', aoiName = ''N'', totalDwellTime = 0, fixationCount = 0,
              meanFixationDuration = 0, percentOfTotal = 0\<rparr>,
             \<lparr>aoiId = ''__outside__'', aoiName = ''Outside AOIs'', totalDwellTime = 0,
              fixationCount = 0, meanFixationDuration = 0, percentOfTotal = 0\<rparr>],
          res_scanpathMetrics =
            \<lparr>totalLength = 0, sp_fixationCount = 0, totalDuration = 0,
             sp_meanFixationDuration = 0, meanSaccadeAmplitude = 0, aoiSequence = [],
             aoiTransitionMatrix = []\<rparr>,
          res_firstFixationMetrics =
            [\<lparr>ff_aoiId = ''N'', ff_aoiName = ''N'', timeToFirstFixation = None,
              firstFixationDuration = None, firstFixationX = None, firstFixationY = None,
              entryCount = 0\<rparr>],
          res_parameters =
            \<lparr>par_dispersionThreshold = 3 / 100, par_minFixationDuration = 100\<rparr>\<rparr> \<and>
   analyzeGazeData [] [rectAOI ''N'' 0 0 (- 1) 1] noOptions \<noteq> Inl InvalidAOI"
  by (simp add: analyzeGazeData_def noOptions_def detectFixationsIDT_def calculateDwellTime_def
      calculateScanpathMetrics_def emptyScanpath_def calculateFirstFixation_def firstFixationFromSorted_def sumDurations_def rectAOI_def
      DEFAULT_DISPERSION_THRESHOLD_def DEFAULT_MIN_FIXATION_DURATION_def Let_def)

text \<open>
  C6, amended. \<^verbatim>\<open>analyzeGazeData\<close> rejects no input: every call returns a result, and the result
  has a dwell-time record and a first-fixation record for every AOI of the list, in list
  order and under the AOI's id, also for an AOI with negative width or height. An AOI with
  negative width can match only a fixation whose centroid has \<open>x = bounds.x\<close>, and one with
  negative height only a fixation whose centroid has \<open>y = bounds.y\<close> (in exact arithmetic it
  matches none; in binary64 the sum \<open>bounds.x + bounds.width\<close> can round to \<open>bounds.x\<close>). When no fixation of the
  result lies on that line, the dwell-time record of the AOI has \<^verbatim>\<open>fixationCount\<close> 0 and
  \<^verbatim>\<open>totalDwellTime\<close> 0, and its first-fixation record has \<^verbatim>\<open>timeToFirstFixation\<close> \<^verbatim>\<open>null\<close> and
  \<^verbatim>\<open>entryCount\<close> 0.
\<close>

theorem analyzeGazeData_never_rejects:
  "(\<exists>r. analyzeGazeData gazePoints aois options = Inr r) \<and>
   (\<forall>r. analyzeGazeData gazePoints aois options = Inr r \<longrightarrow>
      map aoiId (res_dwellTimeStats r) = map aoi_id aois @ [''__outside__''] \<and>
      map ff_aoiId (res_firstFixationMetrics r) = map aoi_id aois \<and>
      (\<forall>i<length aois.
         (width (bounds (aois ! i)) < 0 \<and>
            (\<forall>f\<in>set (res_fixations r). fix_x f \<noteq> b_x (bounds (aois ! i)))) \<or>
         (height (bounds (aois ! i)) < 0 \<and>
            (\<forall>f\<in>set (res_fixations r). fix_y f \<noteq> b_y (bounds (aois ! i)))) \<longrightarrow>
         fixationCount (res_dwellTimeStats r ! i) = 0 \<and>
         totalDwellTime (res_dwellTimeStats r ! i) = 0 \<and>
         timeToFirstFixation (res_firstFixationMetrics r ! i) = None \<and>
         entryCount (res_firstFixationMetrics r ! i) = 0))"
proof -
  let ?fs = "detectFixationsIDT gazePoints
      (case opt_dispersionThreshold options of Some v \<Rightarrow> v | None \<Rightarrow> DEFAULT_DISPERSION_THRESHOLD)
      (case opt_minFixationDuration options of Some v \<Rightarrow> v | None \<Rightarrow> DEFAULT_MIN_FIXATION_DURATION)"
  let ?v = "case opt_videoStartTime options of Some v \<Rightarrow> v | None \<Rightarrow> 0"
  have returns: "\<exists>r. analyzeGazeData gazePoints aois options = Inr r"
    by (simp add: analyzeGazeData_def Let_def)
  have fields: "res_fixations r = ?fs \<and>
      res_dwellTimeStats r = calculateDwellTime ?fs aois \<and>
      res_firstFixationMetrics r = calculateFirstFixation ?fs aois ?v"
    if "analyzeGazeData gazePoints aois options = Inr r" for r
    using that by (auto simp: analyzeGazeData_def Let_def)
  have ids: "map aoiId (calculateDwellTime ?fs aois) = map aoi_id aois @ [''__outside__'']"
    "map ff_aoiId (calculateFirstFixation ?fs aois ?v) = map aoi_id aois"
    by (simp_all add: calculateDwellTime_def calculateFirstFixation_def
        firstFixationFromSorted_def Let_def comp_def)
  have zero: "fixationCount (calculateDwellTime ?fs aois ! i) = 0 \<and>
       totalDwellTime (calculateDwellTime ?fs aois ! i) = 0 \<and>
       timeToFirstFixation (calculateFirstFixation ?fs aois ?v ! i) = None \<and>
       entryCount (calculateFirstFixation ?fs aois ?v ! i) = 0"
    if i: "i < length aois"
      and off: "(width (bounds (aois ! i)) < 0 \<and>
            (\<forall>f\<in>set ?fs. fix_x f \<noteq> b_x (bounds (aois ! i)))) \<or>
         (height (bounds (aois ! i)) < 0 \<and>
            (\<forall>f\<in>set ?fs. fix_y f \<noteq> b_y (bounds (aois ! i))))" for i
  proof -
    have no: "\<forall>f\<in>set ?fs. \<not> isPointInAOI (fix_x f) (fix_y f) (aois ! i)"
      using off off_line_outside [of "aois ! i"] by blast
    then have no': "\<forall>f\<in>set (sort_key startTime ?fs).
        \<not> isPointInAOI (fix_x f) (fix_y f) (aois ! i)"
      by simp
    have d: "fixationCount (calculateDwellTime ?fs aois ! i) = 0 \<and>
        totalDwellTime (calculateDwellTime ?fs aois ! i) = 0"
      using i by (simp add: dwell_record filter_none_inside [OF no] sumDurations_Nil)
    have f: "timeToFirstFixation (calculateFirstFixation ?fs aois ?v ! i) = None \<and>
        entryCount (calculateFirstFixation ?fs aois ?v ! i) = 0"
      using i
      by (simp add: calculateFirstFixation_def firstFixationFromSorted_def Let_def
          filter_none_inside [OF no'] entryLoop_none_inside [OF no'])
    from d f show ?thesis by simp
  qed
  from returns fields ids zero show ?thesis
    by (metis (no_types, lifting))
qed

theorem analyzeGazeData_never_rejects_witness:
  "(\<exists>r. analyzeGazeData [gazeAt 0 0 0, gazeAt 1 1 0] [rectAOI ''N'' 1 1 (- 2) (- 2)]
          \<lparr>opt_dispersionThreshold = Some 1, opt_minFixationDuration = Some 100,
           opt_videoStartTime = None\<rparr> = Inr r \<and>
        map fix_x (res_fixations r) = [1 / 2] \<and>
        map aoiId (res_dwellTimeStats r) = [''N'', ''__outside__''] \<and>
        map ff_aoiId (res_firstFixationMetrics r) = [''N''] \<and>
        fixationCount (res_dwellTimeStats r ! 0) = 0 \<and>
        totalDwellTime (res_dwellTimeStats r ! 0) = 0 \<and>
        timeToFirstFixation (res_firstFixationMetrics r ! 0) = None \<and>
        entryCount (res_firstFixationMetrics r ! 0) = 0) \<and>
   width (bounds (rectAOI ''N'' 1 1 (- 2) (- 2))) < 0 \<and>
   b_x (bounds (rectAOI ''N'' 1 1 (- 2) (- 2))) = 1"
proof -
  let ?gps = "[gazeAt 0 0 0, gazeAt 1 1 0]"
  let ?aois = "[rectAOI ''N'' 1 1 (- 2) (- 2)]"
  let ?opts = "\<lparr>opt_dispersionThreshold = Some 1, opt_minFixationDuration = Some 100,
      opt_videoStartTime = None\<rparr>"
  note t = analyzeGazeData_never_rejects [of ?gps ?aois ?opts]
  from t obtain r where r: "analyzeGazeData ?gps ?aois ?opts = Inr r"
    by blast
  have w: "width (bounds (rectAOI ''N'' 1 1 (- 2) (- 2))) < 0"
    and b: "b_x (bounds (rectAOI ''N'' 1 1 (- 2) (- 2))) = 1"
    by (simp_all add: rectAOI_def)
  from r have fs: "res_fixations r = detectFixationsIDT ?gps 1 100"
    by (auto simp: analyzeGazeData_def Let_def)
  have x: "map fix_x (res_fixations r) = [1 / 2]"
    unfolding fs detect_two_points by simp
  have off: "\<forall>f\<in>set (res_fixations r). fix_x f \<noteq> b_x (bounds (?aois ! 0))"
    unfolding fs detect_two_points by (simp add: b)
  from t r have ids: "map aoiId (res_dwellTimeStats r) = map aoi_id ?aois @ [''__outside__'']"
    "map ff_aoiId (res_firstFixationMetrics r) = map aoi_id ?aois"
    by blast+
  have "0 < length ?aois" by simp
  moreover have "(width (bounds (?aois ! 0)) < 0 \<and>
      (\<forall>f\<in>set (res_fixations r). fix_x f \<noteq> b_x (bounds (?aois ! 0)))) \<or>
    (height (bounds (?aois ! 0)) < 0 \<and>
      (\<forall>f\<in>set (res_fixations r). fix_y f \<noteq> b_y (bounds (?aois ! 0))))"
    using w off by simp
  ultimately have z: "fixationCount (res_dwellTimeStats r ! 0) = 0 \<and>
      totalDwellTime (res_dwellTimeStats r ! 0) = 0 \<and>
      timeToFirstFixation (res_firstFixationMetrics r ! 0) = None \<and>
      entryCount (res_firstFixationMetrics r ! 0) = 0"
    using t r by blast
  have n: "map aoiId (res_dwellTimeStats r) = [''N'', ''__outside__'']"
    "map ff_aoiId (res_firstFixationMetrics r) = [''N'']"
    using ids by (simp_all add: rectAOI_def)
  show ?thesis
    using r x n z w b by (intro conjI exI [of _ r]) simp_all
qed

text \<open>
  C7. For each AOI, in list order, the \<^verbatim>\<open>entryCount\<close> that \<^verbatim>\<open>calculateFirstFixation\<close> returns
  is the number of rising edges of "the centroid is inside this AOI" along the fixations
  sorted by start time, the state before the first fixation being outside.
\<close>

theorem entryCount_rising_edges:
  "map entryCount (calculateFirstFixation fs aois videoStartTime) =
     map (\<lambda>aoi. risingEdges (map (\<lambda>f. isPointInAOI (fix_x f) (fix_y f) aoi)
                               (sort_key startTime fs))) aois"
  by (simp add: calculateFirstFixation_def firstFixationFromSorted_def Let_def comp_def entryLoop_risingEdges
      risingEdges_from_outside)

theorem entryCount_rising_edges_witness:
  "map entryCount (calculateFirstFixation
      [fixationAtPoint 30 2 100 (1 / 2) (1 / 2), fixationAtPoint 10 0 100 (1 / 2) (1 / 2),
       fixationAtPoint 20 1 100 5 5]
      [rectAOI ''A'' 0 0 1 1] 0) = [2] \<and>
   risingEdges [True, False, True] = 2"
proof -
  have s: "sort_key startTime
      [fixationAtPoint 30 2 100 (1 / 2) (1 / 2), fixationAtPoint 10 0 100 (1 / 2) (1 / 2),
       fixationAtPoint 20 1 100 5 5] =
      [fixationAtPoint 10 0 100 (1 / 2) (1 / 2), fixationAtPoint 20 1 100 5 5,
       fixationAtPoint 30 2 100 (1 / 2) (1 / 2)]"
    by (simp add: fixationAtPoint_def)
  have i: "isPointInAOI (fix_x (fixationAtPoint 10 0 100 (1 / 2) (1 / 2)))
        (fix_y (fixationAtPoint 10 0 100 (1 / 2) (1 / 2))) (rectAOI ''A'' 0 0 1 1)"
      "\<not> isPointInAOI (fix_x (fixationAtPoint 20 1 100 5 5))
        (fix_y (fixationAtPoint 20 1 100 5 5)) (rectAOI ''A'' 0 0 1 1)"
      "isPointInAOI (fix_x (fixationAtPoint 30 2 100 (1 / 2) (1 / 2)))
        (fix_y (fixationAtPoint 30 2 100 (1 / 2) (1 / 2))) (rectAOI ''A'' 0 0 1 1)"
    by (simp_all add: fixationAtPoint_def rectAOI_def isPointInAOI_def)
  have e: "risingEdges [True, False, True] = 2"
    by (simp add: risingEdges_def upt_rec [of 0] upt_rec [of 1] upt_rec [of 2])
  show ?thesis
    using entryCount_rising_edges [of
        "[fixationAtPoint 30 2 100 (1 / 2) (1 / 2), fixationAtPoint 10 0 100 (1 / 2) (1 / 2),
          fixationAtPoint 20 1 100 5 5]" "[rectAOI ''A'' 0 0 1 1]" 0]
    unfolding s by (simp add: i e)
qed

text \<open>
  C10. For a non-empty fixation list, the counts stored in the \<^verbatim>\<open>aoiTransitionMatrix\<close> that
  \<^verbatim>\<open>calculateScanpathMetrics\<close> returns add up to \<^verbatim>\<open>fixationCount - 1\<close>, and the count stored
  for a pair of labels is the number of consecutive pairs of the time-ordered fixations that
  carry these labels, taken from the label of every fixation (not from the collapsed
  sequence).
\<close>

theorem transition_counts:
  "fs \<noteq> [] \<longrightarrow>
     matrixTotal (aoiTransitionMatrix (calculateScanpathMetrics fs aois)) =
       sp_fixationCount (calculateScanpathMetrics fs aois) - 1 \<and>
     sp_fixationCount (calculateScanpathMetrics fs aois) = length fs \<and>
     (\<forall>a b. matrixCell (aoiTransitionMatrix (calculateScanpathMetrics fs aois)) a b =
        count_list (zip (labels (sort_key startTime fs) aois)
                        (tl (labels (sort_key startTime fs) aois))) (a, b))"
proof
  assume ne: "fs \<noteq> []"
  let ?s = "sort_key startTime fs"
  have m: "aoiTransitionMatrix (calculateScanpathMetrics fs aois) = transitionLoop ?s aois []"
    and n: "sp_fixationCount (calculateScanpathMetrics fs aois) = length fs"
    using ne by (simp_all add: calculateScanpathMetrics_def scanpathFromSorted_def emptyScanpath_def Let_def)
  have e: "matrixTotal [] = 0" "\<And>a b. matrixCell [] a b = 0"
    by (simp_all add: matrixTotal_def matrixCell_def)
  have t: "matrixTotal (transitionLoop ?s aois []) = length fs - 1"
    by (simp add: transitionLoop_total e)
  have c: "matrixCell (transitionLoop ?s aois []) a b =
      count_list (zip (labels ?s aois) (tl (labels ?s aois))) (a, b)" for a b
    by (simp add: transitionLoop_cell e)
  show "matrixTotal (aoiTransitionMatrix (calculateScanpathMetrics fs aois)) =
       sp_fixationCount (calculateScanpathMetrics fs aois) - 1 \<and>
     sp_fixationCount (calculateScanpathMetrics fs aois) = length fs \<and>
     (\<forall>a b. matrixCell (aoiTransitionMatrix (calculateScanpathMetrics fs aois)) a b =
        count_list (zip (labels (sort_key startTime fs) aois)
                        (tl (labels (sort_key startTime fs) aois))) (a, b))"
    unfolding m n using t c by simp
qed

theorem transition_counts_witness:
  "[fixationAtPoint 10 0 100 (1 / 2) (1 / 2), fixationAtPoint 20 1 100 (1 / 2) (1 / 2),
    fixationAtPoint 30 2 100 5 5] \<noteq> [] \<and>
   aoiTransitionMatrix (calculateScanpathMetrics
     [fixationAtPoint 10 0 100 (1 / 2) (1 / 2), fixationAtPoint 20 1 100 (1 / 2) (1 / 2),
      fixationAtPoint 30 2 100 5 5] [rectAOI ''A'' 0 0 1 1]) =
     [(''A'', [(''A'', 1), (''__outside__'', 1)])] \<and>
   aoiSequence (calculateScanpathMetrics
     [fixationAtPoint 10 0 100 (1 / 2) (1 / 2), fixationAtPoint 20 1 100 (1 / 2) (1 / 2),
      fixationAtPoint 30 2 100 5 5] [rectAOI ''A'' 0 0 1 1]) = [''A'', ''__outside__''] \<and>
   matrixTotal (aoiTransitionMatrix (calculateScanpathMetrics
     [fixationAtPoint 10 0 100 (1 / 2) (1 / 2), fixationAtPoint 20 1 100 (1 / 2) (1 / 2),
      fixationAtPoint 30 2 100 5 5] [rectAOI ''A'' 0 0 1 1])) = 2 \<and>
   sp_fixationCount (calculateScanpathMetrics
     [fixationAtPoint 10 0 100 (1 / 2) (1 / 2), fixationAtPoint 20 1 100 (1 / 2) (1 / 2),
      fixationAtPoint 30 2 100 5 5] [rectAOI ''A'' 0 0 1 1]) = 3"
proof -
  let ?fs = "[fixationAtPoint 10 0 100 (1 / 2) (1 / 2), fixationAtPoint 20 1 100 (1 / 2) (1 / 2),
      fixationAtPoint 30 2 100 5 5]"
  have ne: "?fs \<noteq> []" by simp
  have s: "sort_key startTime ?fs = ?fs"
    by (simp add: fixationAtPoint_def)
  have l: "map (\<lambda>f. aoiNameOf f [rectAOI ''A'' 0 0 1 1]) ?fs = [''A'', ''A'', ''__outside__'']"
    by (simp add: aoiNameOf_def fixationAtPoint_def rectAOI_def isPointInAOI_def)
  have m: "aoiTransitionMatrix (calculateScanpathMetrics ?fs [rectAOI ''A'' 0 0 1 1]) =
      [(''A'', [(''A'', 1), (''__outside__'', 1)])]"
    unfolding calculateScanpathMetrics_def scanpathFromSorted_def Let_def s using l by (simp add: mapHas_def Let_def)
  have q: "aoiSequence (calculateScanpathMetrics ?fs [rectAOI ''A'' 0 0 1 1]) =
      [''A'', ''__outside__'']"
    unfolding calculateScanpathMetrics_def scanpathFromSorted_def Let_def s using l by (simp add: Let_def)
  from transition_counts [of ?fs "[rectAOI ''A'' 0 0 1 1]"] ne
  have "matrixTotal (aoiTransitionMatrix (calculateScanpathMetrics ?fs [rectAOI ''A'' 0 0 1 1])) =
      sp_fixationCount (calculateScanpathMetrics ?fs [rectAOI ''A'' 0 0 1 1]) - 1"
    and "sp_fixationCount (calculateScanpathMetrics ?fs [rectAOI ''A'' 0 0 1 1]) = length ?fs"
    by blast+
  then have "matrixTotal (aoiTransitionMatrix
        (calculateScanpathMetrics ?fs [rectAOI ''A'' 0 0 1 1])) = 2"
    and "sp_fixationCount (calculateScanpathMetrics ?fs [rectAOI ''A'' 0 0 1 1]) = 3"
    by simp_all
  with ne m q show ?thesis by blast
qed

section \<open>Claim about the spelling of the outside category\<close>

text \<open>
  C8, as stated, fails. In the analysis of four gaze points that form two fixations, with no
  AOI, the outside record of the dwell-time statistics is named "Outside AOIs", the label in
  \<^verbatim>\<open>aoiSequence\<close> and in \<^verbatim>\<open>aoiTransitionMatrix\<close> is "__outside__", and the \<^verbatim>\<open>aoi\<close> cell of the
  fixation rows is "outside": three different strings.
\<close>

theorem outside_sentinel_counterexample:
  "\<exists>r. analyzeGazeData fourPoints [] unitOptions = Inr r \<and>
     length (res_fixations r) = 2 \<and>
     aoiName (last (res_dwellTimeStats r)) = ''Outside AOIs'' \<and>
     aoiSequence (res_scanpathMetrics r) = [''__outside__''] \<and>
     aoiTransitionMatrix (res_scanpathMetrics r) = [(''__outside__'', [(''__outside__'', 1)])] \<and>
     map (\<lambda>f. last (fixationCells (\<lambda>v d. []) (\<lambda>n. []) [] f)) (res_fixations r) =
       [''outside'', ''outside''] \<and>
     aoiName (last (res_dwellTimeStats r)) \<noteq> hd (aoiSequence (res_scanpathMetrics r)) \<and>
     hd (aoiSequence (res_scanpathMetrics r)) \<noteq>
       last (fixationCells (\<lambda>v d. []) (\<lambda>n. []) [] (hd (res_fixations r))) \<and>
     aoiName (last (res_dwellTimeStats r)) \<noteq>
       last (fixationCells (\<lambda>v d. []) (\<lambda>n. []) [] (hd (res_fixations r)))"
proof -
  let ?fs = "detectFixationsIDT fourPoints 1 100"
  have two: "length ?fs = 2"
    and cells: "map (\<lambda>f. last (fixationCells (\<lambda>v d. []) (\<lambda>n. []) [] f)) ?fs =
       [''outside'', ''outside'']"
    and cell: "last (fixationCells (\<lambda>v d. []) (\<lambda>n. []) [] (hd ?fs)) = ''outside''"
    unfolding detect_four_points by (simp_all add: fixationCells_def)
  have dwell: "aoiName (last (calculateDwellTime ?fs [])) = ''Outside AOIs''"
    by (simp add: calculateDwellTime_def Let_def)
  have s: "sort_key startTime ?fs = ?fs"
    unfolding detect_four_points by simp
  have scan: "aoiSequence (calculateScanpathMetrics ?fs []) = [''__outside__'']"
    "aoiTransitionMatrix (calculateScanpathMetrics ?fs []) =
       [(''__outside__'', [(''__outside__'', 1)])]"
    unfolding calculateScanpathMetrics_def scanpathFromSorted_def Let_def s
    unfolding detect_four_points
    by (simp_all add: aoiNameOf_def mapHas_def Let_def)
  show ?thesis
    by (simp add: analyzeGazeData_def unitOptions_def Let_def two cells cell dwell scan)
qed

text \<open>
  C8, amended. The outside category has a fixed spelling in each output, and the spellings
  differ between outputs. The last record of the dwell-time statistics has the \<^verbatim>\<open>aoiId\<close>
  "__outside__" and the \<^verbatim>\<open>aoiName\<close> "Outside AOIs". \<^verbatim>\<open>aoiSequence\<close> is the list of the labels of
  the time-ordered fixations with consecutive repetitions collapsed, and the count that
  \<^verbatim>\<open>aoiTransitionMatrix\<close> stores for two labels is the number of consecutive fixations that
  carry them; the label of a fixation outside every AOI is "__outside__". The \<^verbatim>\<open>aoi\<close> cell of
  the row of such a fixation in the fixations CSV is "outside".
\<close>

theorem outside_sentinel_spellings:
  "aoiId (last (calculateDwellTime fs aois)) = ''__outside__'' \<and>
   aoiName (last (calculateDwellTime fs aois)) = ''Outside AOIs'' \<and>
   aoiSequence (calculateScanpathMetrics fs aois) =
     remdups_adj (labels (sort_key startTime fs) aois) \<and>
   (\<forall>a b. matrixCell (aoiTransitionMatrix (calculateScanpathMetrics fs aois)) a b =
      count_list (zip (labels (sort_key startTime fs) aois)
                      (tl (labels (sort_key startTime fs) aois))) (a, b)) \<and>
   (\<forall>f. containingCount f aois = 0 \<longrightarrow>
      findAOIForFixation f aois = None \<and>
      labels [f] aois = [''__outside__''] \<and>
      last (fixationCells toFixed numStr aois f) = ''outside'')"
proof -
  have "findAOIForFixation f aois = None \<and> labels [f] aois = [''__outside__''] \<and>
      last (fixationCells toFixed numStr aois f) = ''outside''"
    if "containingCount f aois = 0" for f
    using find_outside [OF that]
    by (simp add: findAOIForFixation_find labels_def aoiNameOf_def last_fixationCells)
  then show ?thesis
    using last_calculateDwellTime [of fs aois] aoiSequence_collapsed [of fs aois]
      transitionMatrix_cells [of fs aois]
    by blast
qed

theorem outside_sentinel_spellings_witness:
  "containingCount (fixationAtPoint 10 0 100 5 5) [rectAOI ''A'' 0 0 1 1] = 0 \<and>
   findAOIForFixation (fixationAtPoint 10 0 100 5 5) [rectAOI ''A'' 0 0 1 1] = None \<and>
   labels [fixationAtPoint 10 0 100 5 5] [rectAOI ''A'' 0 0 1 1] = [''__outside__''] \<and>
   last (fixationCells (\<lambda>v d. []) (\<lambda>n. []) [rectAOI ''A'' 0 0 1 1]
     (fixationAtPoint 10 0 100 5 5)) = ''outside''"
proof -
  have c: "containingCount (fixationAtPoint 10 0 100 5 5) [rectAOI ''A'' 0 0 1 1] = 0"
    by (simp add: containingCount_def fixationAtPoint_def rectAOI_def isPointInAOI_def)
  with outside_sentinel_spellings [of "[]" "[rectAOI ''A'' 0 0 1 1]" "\<lambda>v d. []" "\<lambda>n. []"]
  show ?thesis by blast
qed

section \<open>Claim about the arguments of the analysis\<close>

text \<open>
  C9. \<^verbatim>\<open>analyzeGazeData\<close>, called on the addresses of an existing array of gaze points and of
  an existing array of AOIs, returns, and in the store it leaves behind these two arrays are
  as they were: the same elements in the same order. More than that, every array that
  existed before the call is unchanged (the calls of \<^verbatim>\<open>sort\<close> act on arrays created during the
  call), and the result, with its \<^verbatim>\<open>fixations\<close> array read from the final store, is the result
  of \<^const>\<open>analyzeGazeData\<close> on the contents of the two arrays.
\<close>

theorem analyzeGazeData_leaves_arguments:
  "gazePoints < length (gazeArrays s) \<and> aois < length (aoiArrays s) \<longrightarrow>
     gazeArrays (fst (analyzeGazeData_st s gazePoints aois options)) ! gazePoints =
       gazeArrays s ! gazePoints \<and>
     aoiArrays (fst (analyzeGazeData_st s gazePoints aois options)) ! aois =
       aoiArrays s ! aois \<and>
     take (length (gazeArrays s))
       (gazeArrays (fst (analyzeGazeData_st s gazePoints aois options))) = gazeArrays s \<and>
     aoiArrays (fst (analyzeGazeData_st s gazePoints aois options)) = aoiArrays s \<and>
     take (length (fixationArrays s))
       (fixationArrays (fst (analyzeGazeData_st s gazePoints aois options))) =
       fixationArrays s \<and>
     (\<exists>r. snd (analyzeGazeData_st s gazePoints aois options) = Inr r \<and>
        analyzeGazeData (gazeArrays s ! gazePoints) (aoiArrays s ! aois) options =
          Inr (readResult (fst (analyzeGazeData_st s gazePoints aois options)) r))"
proof
  assume valid: "gazePoints < length (gazeArrays s) \<and> aois < length (aoiArrays s)"
  let ?s' = "fst (analyzeGazeData_st s gazePoints aois options)"
  note e = analyzeGazeData_st_effect [of s gazePoints aois options]
  from e have g: "take (length (gazeArrays s)) (gazeArrays ?s') = gazeArrays s"
    and a: "aoiArrays ?s' = aoiArrays s"
    by simp_all
  from valid have "gazeArrays ?s' ! gazePoints = gazeArrays s ! gazePoints"
    using take_eq_nth [OF g] by simp
  with e a
  show "gazeArrays ?s' ! gazePoints = gazeArrays s ! gazePoints \<and>
     aoiArrays ?s' ! aois = aoiArrays s ! aois \<and>
     take (length (gazeArrays s)) (gazeArrays ?s') = gazeArrays s \<and>
     aoiArrays ?s' = aoiArrays s \<and>
     take (length (fixationArrays s)) (fixationArrays ?s') = fixationArrays s \<and>
     (\<exists>r. snd (analyzeGazeData_st s gazePoints aois options) = Inr r \<and>
        analyzeGazeData (gazeArrays s ! gazePoints) (aoiArrays s ! aois) options =
          Inr (readResult ?s' r))"
    by simp
qed

theorem analyzeGazeData_leaves_arguments_witness:
  "0 < length (gazeArrays exampleStore) \<and> 0 < length (aoiArrays exampleStore) \<and>
   gazeArrays exampleStore = [[gazeAt 1 1 0, gazeAt 0 0 0]] \<and>
   gazeArrays (fst (analyzeGazeData_st exampleStore 0 0 unitOptions)) =
     [[gazeAt 1 1 0, gazeAt 0 0 0], [gazeAt 0 0 0, gazeAt 1 1 0]] \<and>
   gazeArrays (fst (analyzeGazeData_st exampleStore 0 0 unitOptions)) ! 0 =
     gazeArrays exampleStore ! 0 \<and>
   aoiArrays (fst (analyzeGazeData_st exampleStore 0 0 unitOptions)) ! 0 =
     aoiArrays exampleStore ! 0"
proof -
  have v: "0 < length (gazeArrays exampleStore) \<and> 0 < length (aoiArrays exampleStore)"
    by (simp add: exampleStore_def)
  have s: "timestamp (gazeAt t px py) = t" for t px py
    by (simp add: gazeAt_def)
  have g: "gazeArrays (fst (analyzeGazeData_st exampleStore 0 0 unitOptions)) =
      [[gazeAt 1 1 0, gazeAt 0 0 0], [gazeAt 0 0 0, gazeAt 1 1 0]]"
    unfolding analyzeGazeData_st_gazeArrays
    by (simp add: detectFixationsIDT_st_def Let_def newArray_def sortInPlace_def
        exampleStore_def unitOptions_def s)
  from analyzeGazeData_leaves_arguments [of 0 exampleStore 0 unitOptions] v
  have "gazeArrays (fst (analyzeGazeData_st exampleStore 0 0 unitOptions)) ! 0 =
      gazeArrays exampleStore ! 0"
    and "aoiArrays (fst (analyzeGazeData_st exampleStore 0 0 unitOptions)) ! 0 =
      aoiArrays exampleStore ! 0"
    by blast+
  with v g show ?thesis
    by (simp add: exampleStore_def)
qed

end
